theory Spec2Isabelle
  imports Main "HOL-Library.Word"
begin

section \<open>The Ingres metadata writer of usql (drivers/ingres/ingres.go)\<close>

text \<open>
  A shallow embedding of the writer that composes the reports of the describe
  commands. Go strings are byte sequences and are modelled as \<^typ>\<open>string\<close>
  (a list of 8-bit characters). A Go function returning \<open>(T, error)\<close> returns a pair
  whose second component is \<open>None\<close> for a nil error.
\<close>

subsection \<open>Errors\<close>

text \<open>
  \<open>ErrNotSupported\<close> is the sentinel \<open>text.ErrNotSupported\<close>; the code compares
  against it with \<open>!=\<close>, which a wrapped sentinel does not satisfy. \<open>Errorf\<close>
  records a call \<open>fmt.Errorf(format, args..., err)\<close> whose format ends in \<open>%w\<close>.
  \<open>NotSupportedByDriver\<close> is \<open>fmt.Errorf(text.NotSupportedByDriver, cmd, u.Driver)\<close>.
  \<open>Failure\<close> is any other error a reader returns. \<open>Panic\<close> is a run-time panic
  (a failed type assertion, a nil result set, a slice bound out of range).
\<close>

datatype error =
    ErrNotSupported
  | Failure string
  | Errorf string "string list" error
  | NotSupportedByDriver string
  | Panic string

subsection \<open>The functions of package strings that the writer calls\<close>

fun HasPrefix :: "string \<Rightarrow> string \<Rightarrow> bool" where
  "HasPrefix s [] = True"
| "HasPrefix [] (p # ps) = False"
| "HasPrefix (c # cs) (p # ps) = (c = p \<and> HasPrefix cs ps)"

definition HasSuffix :: "string \<Rightarrow> string \<Rightarrow> bool" where
  "HasSuffix s suffix =
     (length suffix \<le> length s \<and> drop (length s - length suffix) s = suffix)"

text \<open>
  \<open>strings.ContainsRune(s, r)\<close> for a rune below 0x80, which is all the writer passes
  (\<open>'.'\<close> and the one-letter type codes): in UTF-8 such a rune is one byte, and no
  byte of a longer sequence equals it.
\<close>

definition ContainsRune :: "string \<Rightarrow> char \<Rightarrow> bool" where
  "ContainsRune s c = (c \<in> set s)"

text \<open>\<open>strings.Index\<close>: the position of the first occurrence, \<open>None\<close> for Go's -1.\<close>

fun strings_Index :: "string \<Rightarrow> string \<Rightarrow> nat option" where
  "strings_Index [] sep = (if sep = [] then Some 0 else None)"
| "strings_Index (c # cs) sep =
     (if HasPrefix (c # cs) sep then Some 0 else map_option Suc (strings_Index cs sep))"

text \<open>
  \<open>strings.SplitN(s, sep, n)\<close> for a non-empty separator and \<open>n \<ge> 0\<close>: at most
  \<open>n\<close> parts, the last one the unsplit remainder.
\<close>

fun SplitN :: "string \<Rightarrow> string \<Rightarrow> nat \<Rightarrow> string list" where
  "SplitN s sep 0 = []"
| "SplitN s sep (Suc n) =
     (if n = 0 then [s]
      else (case strings_Index s sep of
              None \<Rightarrow> [s]
            | Some i \<Rightarrow> take i s # SplitN (drop (i + length sep) s) sep n))"

text \<open>
  \<open>strings.ReplaceAll(s, old, new)\<close>: the non-overlapping occurrences of \<open>old\<close>,
  from the left. The first equation (an empty \<open>old\<close>) is what Go does on a string of
  one-byte characters; the writer never calls it so.
\<close>

function (sequential) ReplaceAll :: "string \<Rightarrow> string \<Rightarrow> string \<Rightarrow> string" where
  "ReplaceAll s [] new = new @ concat (map (\<lambda>c. c # new) s)"
| "ReplaceAll [] old new = []"
| "ReplaceAll (c # cs) old new =
     (if HasPrefix (c # cs) old then new @ ReplaceAll (drop (length old) (c # cs)) old new
      else c # ReplaceAll cs old new)"
  by pat_completeness auto
termination
  by (relation "measure (\<lambda>(s, old, new). length s)") auto

text \<open>\<open>strings.Join(elems, sep)\<close>.\<close>

fun Join :: "string list \<Rightarrow> string \<Rightarrow> string" where
  "Join [] sep = []"
| "Join [x] sep = x"
| "Join (x # y # ys) sep = x @ sep @ Join (y # ys) sep"

subsection \<open>parsePattern\<close>

text \<open>
  \<open>parts[0]\<close> and \<open>parts[1]\<close> index the slice \<open>SplitN\<close> returns; an index out of
  range would panic, which the model keeps as a branch.
\<close>

definition parsePattern :: "string \<Rightarrow> (string \<times> string) \<times> error option" where
  "parsePattern pattern =
     (if ContainsRune pattern CHR ''.'' then
        (case SplitN pattern ''.'' 2 of
           p0 # p1 # _ \<Rightarrow> ((ReplaceAll p0 ''*'' ''%'', ReplaceAll p1 ''*'' ''%''), None)
         | _ \<Rightarrow> (([], []), Some (Panic ''index out of range'')))
      else (([], ReplaceAll pattern ''*'' ''%''), None))"

subsection \<open>float64 and the verb \<open>%.4f\<close>\<close>

text \<open>
  A float64 is a sign, a mantissa and a binary exponent (the value is
  \<open>m * 2 ^ e\<close>, negated when the sign is set), an infinity or NaN. Arithmetic rounds
  to the nearest value with a 53-bit mantissa, ties to the even mantissa, with
  subnormal values below \<open>2 ^ -1022\<close> and an infinity from \<open>2 ^ 1024\<close> on.
\<close>

datatype float64 = Finite bool nat int | Infinity bool | NaN

text \<open>\<open>round_half_even n d\<close> is the integer nearest to \<open>n / d\<close>, ties to even.\<close>

definition round_half_even :: "nat \<Rightarrow> nat \<Rightarrow> nat" where
  "round_half_even n d =
     (let q = n div d; rem = n mod d
      in if 2 * rem < d then q
         else if d < 2 * rem then q + 1
         else if even q then q else q + 1)"

text \<open>Number of binary digits of a natural number.\<close>

function bit_length :: "nat \<Rightarrow> nat" where
  "bit_length n = (if n = 0 then 0 else Suc (bit_length (n div 2)))"
  by pat_completeness auto
termination
  by (relation "measure id") auto

text \<open>\<open>floor_log2 n d\<close> is the floor of the binary logarithm of \<open>n / d\<close>, for positive \<open>n\<close> and \<open>d\<close>.\<close>

definition floor_log2 :: "nat \<Rightarrow> nat \<Rightarrow> int" where
  "floor_log2 n d =
     (let e0 = int (bit_length n) - int (bit_length d)
      in if (if 0 \<le> e0 then d * 2 ^ nat e0 \<le> n else d \<le> n * 2 ^ nat (- e0))
         then e0 else e0 - 1)"

text \<open>The float64 nearest to \<open>n / d\<close> (with \<open>d\<close> positive), with the given sign.\<close>

definition round_float64 :: "bool \<Rightarrow> nat \<Rightarrow> nat \<Rightarrow> float64" where
  "round_float64 neg n d =
     (if n = 0 then Finite neg 0 0
      else let ulp = max (floor_log2 n d - 52) (- 1074);
               m = (if 0 \<le> ulp then round_half_even n (d * 2 ^ nat ulp)
                    else round_half_even (n * 2 ^ nat (- ulp)) d)
           in if 971 < ulp \<or> (ulp = 971 \<and> 2 ^ 53 \<le> m) then Infinity neg
              else Finite neg m ulp)"

text \<open>The conversion \<open>float64(x)\<close> of an int64.\<close>

definition float64_of_int64 :: "64 word \<Rightarrow> float64" where
  "float64_of_int64 x = round_float64 (sint x < 0) (nat \<bar>sint x\<bar>) 1"

text \<open>The quotient \<open>x / y\<close> of two float64 values.\<close>

fun float64_div :: "float64 \<Rightarrow> float64 \<Rightarrow> float64" where
  "float64_div NaN y = NaN"
| "float64_div x NaN = NaN"
| "float64_div (Infinity s) (Infinity t) = NaN"
| "float64_div (Infinity s) (Finite t m e) = Infinity (s \<noteq> t)"
| "float64_div (Finite s m e) (Infinity t) = Finite (s \<noteq> t) 0 0"
| "float64_div (Finite s m e) (Finite t m' e') =
     (if m' = 0 then (if m = 0 then NaN else Infinity (s \<noteq> t))
      else if e' \<le> e then round_float64 (s \<noteq> t) (m * 2 ^ nat (e - e')) m'
      else round_float64 (s \<noteq> t) m (m' * 2 ^ nat (e' - e)))"

text \<open>Decimal digits of a natural number, and the same padded with zeros to four places.\<close>

definition digit :: "nat \<Rightarrow> char" where
  "digit n = ''0123456789'' ! n"

function decimal :: "nat \<Rightarrow> string" where
  "decimal n = (if n < 10 then [digit n] else decimal (n div 10) @ [digit (n mod 10)])"
  by pat_completeness auto
termination
  by (relation "measure id") auto

definition four_digits :: "nat \<Rightarrow> string" where
  "four_digits n =
     [digit (n div 1000 mod 10), digit (n div 100 mod 10), digit (n div 10 mod 10), digit (n mod 10)]"

text \<open>
  \<open>fmt.Sprintf("%.4f", x)\<close>: the exact value rounded to four decimal places, ties to
  even; the sign is kept when the digits are all zero.
\<close>

fun Sprintf_4f :: "float64 \<Rightarrow> string" where
  "Sprintf_4f NaN = ''NaN''"
| "Sprintf_4f (Infinity neg) = (if neg then ''-Inf'' else ''+Inf'')"
| "Sprintf_4f (Finite neg m e) =
     (let scaled = (if 0 \<le> e then m * 10000 * 2 ^ nat e
                    else round_half_even (m * 10000) (2 ^ nat (- e)))
      in (if neg then ''-'' else []) @ decimal (scaled div 10000) @ ''.''
         @ four_digits (scaled mod 10000))"

declare Sprintf_4f.simps [simp del]

subsection \<open>The metadata entities\<close>

text \<open>
  Modelled from the spec: the declarations of package metadata (Filter, the entity
  structs, the reader interfaces and the result sets) are not among the sources. The
  records hold the fields the writer reads, under a prefix per entity.
\<close>

record Filter =
  Catalog :: string
  Schema :: string
  Parent :: string
  Reference :: string
  Name :: string
  Types :: "string list"
  WithSystem :: bool

text \<open>The zero value \<open>md.Filter{}\<close>; a composite literal sets some of its fields.\<close>

definition Filter0 :: Filter where
  "Filter0 = \<lparr>Catalog = [], Schema = [], Parent = [], Reference = [], Name = [],
     Types = [], WithSystem = False\<rparr>"

record Table =
  t_Catalog :: string
  t_Schema :: string
  t_Name :: string
  t_Type :: string
  t_Rows :: "64 word"
  t_Size :: string
  t_Comment :: string

record Column =
  col_Name :: string
  col_DataType :: string
  col_IsNullable :: string
  col_Default :: string
  col_ColumnSize :: int
  col_DecimalDigits :: int
  col_NumPrecRadix :: int
  col_CharOctetLength :: int

record Index =
  i_Catalog :: string
  i_Schema :: string
  i_Table :: string
  i_Name :: string
  i_IsPrimary :: string
  i_IsUnique :: string
  i_Type :: string
  i_Columns :: string

record IndexColumn =
  ic_Name :: string
  ic_DataType :: string

record Constraint =
  c_Catalog :: string
  c_Schema :: string
  c_Table :: string
  c_Name :: string
  c_Type :: string
  c_CheckClause :: string
  c_ForeignTable :: string
  c_UpdateRule :: string
  c_DeleteRule :: string

record ConstraintColumn =
  cc_Name :: string
  cc_ForeignName :: string

record Sequence =
  s_Schema :: string
  s_Name :: string

record Trigger =
  tr_Name :: string
  tr_Definition :: string

record Function =
  f_Catalog :: string
  f_Schema :: string
  f_Name :: string
  f_SpecificName :: string
  f_ResultType :: string
  f_ArgTypes :: string
  f_Type :: string
  f_Volatility :: string
  f_Security :: string
  f_Language :: string
  f_Source :: string

record FunctionColumn =
  fc_OrdinalPosition :: int
  fc_Type :: string
  fc_Name :: string
  fc_DataType :: string

record ColumnStat =
  cs_Schema :: string
  cs_Table :: string
  cs_Name :: string
  cs_AvgWidth :: int
  cs_NullFrac :: float64
  cs_NumDistinct :: "64 word"
  cs_Min :: string
  cs_Max :: string
  cs_Mean :: string
  cs_TopN :: "string list"
  cs_TopNFreqs :: "float64 list"

text \<open>\<open>md.YES\<close>, the value of the three-valued \<open>md.Bool\<close> that the writer compares with.\<close>

definition YES :: string where
  "YES = ''YES''"

subsection \<open>Result sets\<close>

text \<open>
  Modelled from the spec: a result set buffers its rows, holds a client-side filter
  and a cursor. \<open>Next\<close> moves the cursor to the next row that passes the filter and
  tells whether there is one; \<open>Get\<close> is the row under the cursor (the writer calls it
  only after \<open>Next\<close> returned true); \<open>Len\<close> counts the rows that pass the filter;
  \<open>SetFilter\<close> replaces the filter; \<open>Reset\<close> rewinds the cursor and keeps the
  filter. \<open>Close\<close> releases resources and changes nothing the writer observes.
\<close>

record 'a ResultSet =
  results :: "'a list"
  rs_filter :: "'a \<Rightarrow> bool"
  current :: nat

definition NewResultSet :: "'a list \<Rightarrow> 'a ResultSet" where
  "NewResultSet rows = \<lparr>results = rows, rs_filter = (\<lambda>_. True), current = 0\<rparr>"

definition SetFilter :: "('a \<Rightarrow> bool) \<Rightarrow> 'a ResultSet \<Rightarrow> 'a ResultSet" where
  "SetFilter p res = res\<lparr>rs_filter := p\<rparr>"

definition Len :: "'a ResultSet \<Rightarrow> nat" where
  "Len res = length (filter (rs_filter res) (results res))"

definition Reset :: "'a ResultSet \<Rightarrow> 'a ResultSet" where
  "Reset res = res\<lparr>current := 0\<rparr>"

definition Next :: "'a ResultSet \<Rightarrow> bool \<times> 'a ResultSet" where
  "Next res =
     (let skipped = takeWhile (\<lambda>x. \<not> rs_filter res x) (drop (current res) (results res));
          c = current res + length skipped + 1
      in (c \<le> length (results res), res\<lparr>current := c\<rparr>))"

definition Get :: "'a ResultSet \<Rightarrow> 'a" where
  "Get res = results res ! (current res - 1)"

text \<open>
  The rows a renderer or a loop will still see: those from the cursor on that pass
  the filter.
\<close>

definition remaining :: "'a ResultSet \<Rightarrow> 'a list" where
  "remaining res = filter (rs_filter res) (drop (current res) (results res))"

text \<open>
  The loop \<open>for res.Next() { x := res.Get(); ... }\<close> over a state \<open>s\<close>, where the body
  may leave the enclosing function with an error.
\<close>

function forNext ::
  "'a ResultSet \<Rightarrow> ('a \<Rightarrow> 's \<Rightarrow> 's \<times> error option) \<Rightarrow> 's \<Rightarrow> 's \<times> error option" where
  "forNext res body s =
     (if fst (Next res) then
        (case body (Get (snd (Next res))) s of
           (s', Some e) \<Rightarrow> (s', Some e)
         | (s', None) \<Rightarrow> forNext (snd (Next res)) body s')
      else (s, None))"
  by pat_completeness auto
termination
  by (relation "measure (\<lambda>(res, body, s). length (results res) - current res)")
    (auto simp: Next_def Let_def)

declare forNext.simps [simp del]

subsection \<open>Readers, the writer and its output\<close>

text \<open>
  Modelled from the spec: a reader is one object that implements some of the capability
  interfaces; a type assertion \<open>w.r.(md.TableReader)\<close> finds out whether it implements
  one. The record has one optional query function per capability, \<open>None\<close> when the
  interface is absent. A query returns the Go pair \<open>(result set, error)\<close>: the rows of
  a freshly created result set, or \<open>None\<close> for a nil one, and the error.
\<close>

type_synonym 'a reply = "'a list option \<times> error option"

record Reader =
  Tables :: "(Filter \<Rightarrow> Table reply) option"
  Columns :: "(Filter \<Rightarrow> Column reply) option"
  Indexes :: "(Filter \<Rightarrow> Index reply) option"
  IndexColumns :: "(Filter \<Rightarrow> IndexColumn reply) option"
  Constraints :: "(Filter \<Rightarrow> Constraint reply) option"
  ConstraintColumns :: "(Filter \<Rightarrow> ConstraintColumn reply) option"
  Sequences :: "(Filter \<Rightarrow> Sequence reply) option"
  Triggers :: "(Filter \<Rightarrow> Trigger reply) option"
  Functions :: "(Filter \<Rightarrow> Function reply) option"
  FunctionColumns :: "(Filter \<Rightarrow> FunctionColumn reply) option"
  ColumnStats :: "(Filter \<Rightarrow> ColumnStat reply) option"

text \<open>
  The fields of \<open>IngresWriter\<close> that the describe commands read. The two type tables
  are Go maps, which \<open>range\<close> visits in no fixed order: an association list in some
  order. The output stream \<open>w.w\<close> is passed along as the list of writes made so far.
\<close>

record Writer =
  w_r :: Reader
  tableTypes :: "(char \<times> string list) list"
  funcTypes :: "(char \<times> string list) list"
  systemSchemas :: "string set"

text \<open>A value handed to the table encoder (Go's \<open>interface{}\<close>).\<close>

datatype cell = StrV string | IntV int | Int64V "64 word" | FloatV float64

text \<open>
  The output is the sequence of calls that write to it: \<open>fmt.Fprintf\<close> with its format
  and arguments, \<open>fmt.Fprintln\<close> with its text, and the table encoder of tblfmt with the
  parameters the writer sets, the column headers and the scanned rows. The writes
  themselves succeed (an in-memory stream); the encoder renders the rows the result set
  still yields and then runs the summary function, whose error it returns.
\<close>

datatype written =
    Fprintf string "string list"
  | Fprintln string
  | EncodeAll "(string \<times> string) list" "string list" "cell list list"
  | EncodeAllSequences "(string \<times> string) list" "Sequence list"

text \<open>
  Modelled from the spec: the format \<open>text.RelationNotFound\<close> of the "relation not
  found" message belongs to package text, which is not among the sources.
\<close>

definition RelationNotFound :: string where
  \<open>RelationNotFound = ''Did not find any relation named "%s".''\<close>

text \<open>The test \<open>err != nil && err != text.ErrNotSupported\<close>, with the error it lets through.\<close>

fun hard_error :: "error option \<Rightarrow> error option" where
  "hard_error None = None"
| "hard_error (Some e) = (if e \<noteq> ErrNotSupported then Some e else None)"

text \<open>
  The loop \<open>for k, v := range types { if strings.ContainsRune(codes, k) { ... append(v...) } }\<close>.
\<close>

definition selectTypes :: "(char \<times> string list) list \<Rightarrow> string \<Rightarrow> string list" where
  "selectTypes types codes = concat (map snd (filter (\<lambda>(k, v). ContainsRune codes k) types))"

definition qualifiedIdentifier :: "string \<Rightarrow> string \<Rightarrow> string" where
  \<open>qualifiedIdentifier schema name =
     (if schema = [] then ''"'' @ name @ ''"''
      else ''"'' @ schema @ ''.'' @ name @ ''"'')\<close>

subsection \<open>DescribeFunctions\<close>

text \<open>The body of the loop of getFunctionColumns over the rows of one function.\<close>

definition getFunctionColumns_body ::
  "FunctionColumn \<Rightarrow> string list \<Rightarrow> string list \<times> error option" where
  "getFunctionColumns_body c args =
     (if fc_OrdinalPosition c = 0 then (args, None)
      else
        let typ = (if fc_Type c \<noteq> ''IN'' \<and> fc_Type c \<noteq> [] then fc_Type c @ '' '' else []);
            name = (if fc_Name c \<noteq> [] then fc_Name c @ '' '' else fc_Name c)
        in (args @ [typ @ name @ fc_DataType c], None))"

text \<open>
  getFunctionColumns, with the list \<open>qs\<close> of the FunctionColumns queries issued so far
  passed along, so that the number of queries can be stated.
\<close>

definition getFunctionColumns ::
  "Writer \<Rightarrow> string \<Rightarrow> string \<Rightarrow> string \<Rightarrow> Filter list
     \<Rightarrow> (string \<times> error option) \<times> Filter list" where
  "getFunctionColumns w c s f qs =
     (case FunctionColumns (w_r w) of
        None \<Rightarrow> (([], Some (Panic ''interface conversion'')), qs)
      | Some rd \<Rightarrow>
          let flt = Filter0\<lparr>Catalog := c, Schema := s, Parent := f\<rparr> in
          (case rd flt of
             (cols, Some err) \<Rightarrow> (([], Some err), qs @ [flt])
           | (None, None) \<Rightarrow> (([], Some (Panic ''nil pointer dereference'')), qs @ [flt])
           | (Some rows, None) \<Rightarrow>
               ((Join (fst (forNext (NewResultSet rows) getFunctionColumns_body [])) '', '',
                 None), qs @ [flt])))"

text \<open>
  \<open>f := res.Get()\<close> is a pointer to the buffered row, so the assignment to
  \<open>f.ArgTypes\<close> changes the row under the cursor.
\<close>

definition SetCurrent :: "'a ResultSet \<Rightarrow> 'a \<Rightarrow> 'a ResultSet" where
  "SetCurrent res x = res\<lparr>results := (results res)[current res - 1 := x]\<rparr>"

function DescribeFunctions_loop ::
  "Writer \<Rightarrow> Function ResultSet \<Rightarrow> Filter list
     \<Rightarrow> (Function ResultSet \<times> error option) \<times> Filter list" where
  "DescribeFunctions_loop w res qs =
     (if fst (Next res) then
        (let res' = snd (Next res); f = Get res' in
         case getFunctionColumns w (f_Catalog f) (f_Schema f) (f_SpecificName f) qs of
           ((args, Some err), qs') \<Rightarrow>
             ((res', Some (Errorf ''failed to get columns of function %s.%s: %w''
                 [f_Schema f, f_SpecificName f] err)), qs')
         | ((args, None), qs') \<Rightarrow>
             DescribeFunctions_loop w (SetCurrent res' (f\<lparr>f_ArgTypes := args\<rparr>)) qs')
      else ((snd (Next res), None), qs))"
  by pat_completeness auto
termination
  by (relation "measure (\<lambda>(w, res, qs). length (results res) - current res)")
    (auto simp: Next_def Let_def SetCurrent_def)

declare DescribeFunctions_loop.simps [simp del]

definition DescribeFunctions_scanValues :: "bool \<Rightarrow> Function \<Rightarrow> cell list" where
  "DescribeFunctions_scanValues verbose f =
     [StrV (f_Schema f), StrV (f_Name f), StrV (f_ResultType f), StrV (f_ArgTypes f), StrV (f_Type f)]
     @ (if verbose
        then [StrV (f_Volatility f), StrV (f_Security f), StrV (f_Language f), StrV (f_Source f)]
        else [])"

definition DescribeFunctions ::
  "Writer \<Rightarrow> string \<Rightarrow> string \<Rightarrow> bool \<Rightarrow> bool \<Rightarrow> written list \<Rightarrow> Filter list
     \<Rightarrow> (written list \<times> error option) \<times> Filter list" where
  "DescribeFunctions w funcTypes' pattern verbose showSystem out qs =
     (case Functions (w_r w) of
        None \<Rightarrow> ((out, Some (NotSupportedByDriver (CHR 0x5C # ''df''))), qs)
      | Some rd \<Rightarrow>
          let types = selectTypes (funcTypes w) funcTypes' in
          (case parsePattern pattern of
             ((sp, tp), Some err) \<Rightarrow>
               ((out, Some (Errorf ''failed to parse search pattern: %w'' [] err)), qs)
           | ((sp, tp), None) \<Rightarrow>
               (case rd (Filter0\<lparr>Schema := sp, Name := tp, Types := types,
                           WithSystem := showSystem\<rparr>) of
                  (res, Some err) \<Rightarrow>
                    ((out, Some (Errorf ''failed to list functions: %w'' [] err)), qs)
                | (None, None) \<Rightarrow> ((out, Some (Panic ''nil pointer dereference'')), qs)
                | (Some rows, None) \<Rightarrow>
                    let res = NewResultSet rows;
                        res = (if \<not> showSystem
                               then SetFilter (\<lambda>f. f_Schema f \<notin> systemSchemas w) res
                               else res);
                        columns = [''Schema'', ''Name'', ''Result data type'',
                                   ''Argument data types'', ''Type'']
                                  @ (if verbose
                                     then [''Volatility'', ''Security'', ''Language'', ''Source code'']
                                     else []);
                        params = [(''title'', ''List of functions'')]
                    in
                    (case FunctionColumns (w_r w) of
                       Some _ \<Rightarrow>
                         (case DescribeFunctions_loop w res qs of
                            ((res', Some err), qs') \<Rightarrow> ((out, Some err), qs')
                          | ((res', None), qs') \<Rightarrow>
                              ((out @ [EncodeAll params columns
                                  (map (DescribeFunctions_scanValues verbose)
                                     (remaining (Reset res')))], None), qs'))
                     | None \<Rightarrow>
                         ((out @ [EncodeAll params columns
                             (map (DescribeFunctions_scanValues verbose) (remaining res))],
                           None), qs)))))"

subsection \<open>The summary sections of a table report\<close>

text \<open>The formats of the lines of the five sections.\<close>

definition indexFormat :: string where
  \<open>indexFormat = ''  "%s" %s%s%s (%s)\<newline>''\<close>

definition checkFormat :: string where
  \<open>checkFormat = ''  "%s" %s (%s)\<newline>''\<close>

definition foreignKeyFormat :: string where
  \<open>foreignKeyFormat = ''  "%s" %s (%s) REFERENCES %s(%s) ON UPDATE %s ON DELETE %s\<newline>''\<close>

definition referencedByFormat :: string where
  \<open>referencedByFormat =
     ''  TABLE "%s" CONSTRAINT "%s" %s (%s) REFERENCES %s(%s) ON UPDATE %s ON DELETE %s\<newline>''\<close>

definition triggerFormat :: string where
  \<open>triggerFormat = ''  "%s" %s\<newline>''\<close>

definition getIndexColumns ::
  "Writer \<Rightarrow> string \<Rightarrow> string \<Rightarrow> string \<Rightarrow> string \<Rightarrow> string \<times> error option" where
  "getIndexColumns w c s t i =
     (case IndexColumns (w_r w) of
        None \<Rightarrow> ([], Some (Panic ''interface conversion''))
      | Some rd \<Rightarrow>
          (case rd (Filter0\<lparr>Catalog := c, Schema := s, Parent := t, Name := i\<rparr>) of
             (cols, Some err) \<Rightarrow> ([], Some err)
           | (None, None) \<Rightarrow> ([], Some (Panic ''nil pointer dereference''))
           | (Some rows, None) \<Rightarrow>
               (Join (fst (forNext (NewResultSet rows)
                             (\<lambda>col result. (result @ [ic_Name col], None)) [])) '', '',
                None)))"

definition describeTableIndexes_body ::
  "Writer \<Rightarrow> Index \<Rightarrow> written list \<Rightarrow> written list \<times> error option" where
  \<open>describeTableIndexes_body w i out =
     (let primary = (if i_IsPrimary i = YES then ''PRIMARY_KEY, '' else []);
          unique = (if i_IsUnique i = YES then ''UNIQUE, '' else [])
      in case getIndexColumns w (i_Catalog i) (i_Schema i) (i_Table i) (i_Name i) of
           (columns, Some err) \<Rightarrow>
             (out, Some (Errorf ''failed to get columns of index %s: %w'' [i_Name i] err))
         | (columns, None) \<Rightarrow>
             (out @ [Fprintf indexFormat [i_Name i, primary, unique, i_Type i, columns]], None))\<close>

definition describeTableIndexes ::
  "Writer \<Rightarrow> written list \<Rightarrow> string \<Rightarrow> string \<Rightarrow> written list \<times> error option" where
  "describeTableIndexes w out sp tp =
     (case Indexes (w_r w) of
        None \<Rightarrow> (out, None)
      | Some rd \<Rightarrow>
          (case rd (Filter0\<lparr>Schema := sp, Parent := tp\<rparr>) of
             (res, err) \<Rightarrow>
               (case hard_error err of
                  Some e \<Rightarrow>
                    (out, Some (Errorf ''failed to list indexes for table %s: %w'' [tp] e))
                | None \<Rightarrow>
                    (case res of
                       None \<Rightarrow> (out, None)
                     | Some rows \<Rightarrow>
                         if Len (NewResultSet rows) = 0 then (out, None)
                         else forNext (NewResultSet rows) (describeTableIndexes_body w)
                                (out @ [Fprintln ''Indexes:''])))))"

definition describeTableTriggers ::
  "Writer \<Rightarrow> written list \<Rightarrow> string \<Rightarrow> string \<Rightarrow> written list \<times> error option" where
  \<open>describeTableTriggers w out sp tp =
     (case Triggers (w_r w) of
        None \<Rightarrow> (out, None)
      | Some rd \<Rightarrow>
          (case rd (Filter0\<lparr>Schema := sp, Parent := tp\<rparr>) of
             (res, err) \<Rightarrow>
               (case hard_error err of
                  Some e \<Rightarrow>
                    (out, Some (Errorf ''failed to list triggers for table %s: %w'' [tp] e))
                | None \<Rightarrow>
                    (case res of
                       None \<Rightarrow> (out, None)
                     | Some rows \<Rightarrow>
                         if Len (NewResultSet rows) = 0 then (out, None)
                         else forNext (NewResultSet rows)
                                (\<lambda>t out. (out @ [Fprintf triggerFormat
                                                    [tr_Name t, tr_Definition t]], None))
                                (out @ [Fprintln ''Triggers:''])))))\<close>

definition describeTableConstraints ::
  "Writer \<Rightarrow> written list \<Rightarrow> Filter \<Rightarrow> (Constraint \<Rightarrow> bool) \<Rightarrow> string
     \<Rightarrow> (written list \<Rightarrow> Constraint \<Rightarrow> written list \<times> error option)
     \<Rightarrow> written list \<times> error option" where
  "describeTableConstraints w out flt postFilter label printer =
     (case Constraints (w_r w) of
        None \<Rightarrow> (out, None)
      | Some rd \<Rightarrow>
          (case rd flt of
             (res, err) \<Rightarrow>
               (case hard_error err of
                  Some e \<Rightarrow> (out, Some (Errorf ''failed to list constraints: %w'' [] e))
                | None \<Rightarrow>
                    (case res of
                       None \<Rightarrow> (out, None)
                     | Some rows \<Rightarrow>
                         let res = SetFilter postFilter (NewResultSet rows) in
                         if Len res = 0 then (out, None)
                         else forNext res (\<lambda>c out. printer out c) (out @ [Fprintln label])))))"

definition getConstraintColumns ::
  "Writer \<Rightarrow> string \<Rightarrow> string \<Rightarrow> string \<Rightarrow> string \<Rightarrow> (string \<times> string) \<times> error option" where
  "getConstraintColumns w c s t n =
     (case ConstraintColumns (w_r w) of
        None \<Rightarrow> (([], []), Some (Panic ''interface conversion''))
      | Some rd \<Rightarrow>
          (case rd (Filter0\<lparr>Catalog := c, Schema := s, Parent := t, Name := n\<rparr>) of
             (cols, Some err) \<Rightarrow> (([], []), Some err)
           | (None, None) \<Rightarrow> (([], []), Some (Panic ''nil pointer dereference''))
           | (Some rows, None) \<Rightarrow>
               (case fst (forNext (NewResultSet rows)
                            (\<lambda>col (columns, foreignColumns).
                               ((columns @ [cc_Name col],
                                 foreignColumns @ [cc_ForeignName col]), None))
                            ([], [])) of
                  (columns, foreignColumns) \<Rightarrow>
                    ((Join columns '', '', Join foreignColumns '', ''), None))))"

text \<open>The closures that tableDetailsSummary passes to describeTableConstraints.\<close>

definition checkFilter :: "Constraint \<Rightarrow> bool" where
  "checkFilter c =
     (c_Type c = ''CHECK'' \<and> c_CheckClause c \<noteq> []
      \<and> \<not> HasSuffix (c_CheckClause c) '' IS NOT NULL'')"

definition checkPrinter :: "written list \<Rightarrow> Constraint \<Rightarrow> written list \<times> error option" where
  \<open>checkPrinter out c =
     (out @ [Fprintf checkFormat [c_Name c, c_Type c, c_CheckClause c]], None)\<close>

definition foreignKeyFilter :: "Constraint \<Rightarrow> bool" where
  "foreignKeyFilter c = (c_Type c = ''FOREIGN KEY'')"

definition foreignKeyPrinter ::
  "Writer \<Rightarrow> written list \<Rightarrow> Constraint \<Rightarrow> written list \<times> error option" where
  \<open>foreignKeyPrinter w out c =
     (case getConstraintColumns w (c_Catalog c) (c_Schema c) (c_Table c) (c_Name c) of
        ((columns, foreignColumns), Some err) \<Rightarrow> (out, Some err)
      | ((columns, foreignColumns), None) \<Rightarrow>
          (out @ [Fprintf foreignKeyFormat
                    [c_Name c, c_Type c, columns, c_ForeignTable c, foreignColumns,
                     c_UpdateRule c, c_DeleteRule c]], None))\<close>

definition referencedByPrinter ::
  "Writer \<Rightarrow> written list \<Rightarrow> Constraint \<Rightarrow> written list \<times> error option" where
  \<open>referencedByPrinter w out c =
     (case getConstraintColumns w (c_Catalog c) (c_Schema c) (c_Table c) (c_Name c) of
        ((columns, foreignColumns), Some err) \<Rightarrow> (out, Some err)
      | ((columns, foreignColumns), None) \<Rightarrow>
          (out @ [Fprintf referencedByFormat
                    [c_Table c, c_Name c, c_Type c, columns, c_ForeignTable c, foreignColumns,
                     c_UpdateRule c, c_DeleteRule c]], None))\<close>

text \<open>
  The summary function that tableDetailsSummary returns, applied to the output. Its
  integer result is always 0. After the fourth call the error is not tested before the
  next assignment to \<open>err\<close>.
\<close>

definition tableDetailsSummary ::
  "Writer \<Rightarrow> string \<Rightarrow> string \<Rightarrow> written list \<Rightarrow> written list \<times> int \<times> error option" where
  "tableDetailsSummary w sp tp out =
     (case describeTableIndexes w out sp tp of
        (out, Some err) \<Rightarrow> (out, 0, Some err)
      | (out, None) \<Rightarrow>
     (case describeTableConstraints w out (Filter0\<lparr>Schema := sp, Parent := tp\<rparr>)
             checkFilter ''Check constraints:'' checkPrinter of
        (out, Some err) \<Rightarrow> (out, 0, Some err)
      | (out, None) \<Rightarrow>
     (case describeTableConstraints w out (Filter0\<lparr>Schema := sp, Parent := tp\<rparr>)
             foreignKeyFilter ''Foreign-key constraints:'' (foreignKeyPrinter w) of
        (out, Some err) \<Rightarrow> (out, 0, Some err)
      | (out, None) \<Rightarrow>
     (case describeTableConstraints w out (Filter0\<lparr>Schema := sp, Reference := tp\<rparr>)
             foreignKeyFilter ''Referenced by:'' (referencedByPrinter w) of
        (out, err) \<Rightarrow>
     (case describeTableTriggers w out sp tp of
        (out, Some err) \<Rightarrow> (out, 0, Some err)
      | (out, None) \<Rightarrow> (out, 0, None))))))"

subsection \<open>DescribeTableDetails\<close>

definition encodeWithSummary ::
  "(string \<times> string) list \<Rightarrow> string list \<Rightarrow> cell list list
     \<Rightarrow> (written list \<Rightarrow> written list \<times> int \<times> error option)
     \<Rightarrow> written list \<Rightarrow> written list \<times> error option" where
  "encodeWithSummary params columns rows summary out =
     (case summary (out @ [EncodeAll params columns rows]) of
        (out, n, err) \<Rightarrow> (out, err))"

definition describeTableDetails_scanValues :: "bool \<Rightarrow> Column \<Rightarrow> cell list" where
  "describeTableDetails_scanValues verbose f =
     [StrV (col_Name f), StrV (col_DataType f), StrV (col_IsNullable f), StrV (col_Default f)]
     @ (if verbose
        then [IntV (col_ColumnSize f), IntV (col_DecimalDigits f), IntV (col_NumPrecRadix f),
              IntV (col_CharOctetLength f)]
        else [])"

definition describeTableDetails ::
  "Writer \<Rightarrow> string \<Rightarrow> string \<Rightarrow> string \<Rightarrow> bool \<Rightarrow> bool \<Rightarrow> written list
     \<Rightarrow> written list \<times> error option" where
  "describeTableDetails w typ sp tp verbose showSystem out =
     (case Columns (w_r w) of
        None \<Rightarrow> (out, Some (Panic ''interface conversion''))
      | Some rd \<Rightarrow>
          (case rd (Filter0\<lparr>Schema := sp, Parent := tp, WithSystem := showSystem\<rparr>) of
             (res, Some err) \<Rightarrow>
               (out, Some (Errorf ''failed to list columns for table %s: %w'' [tp] err))
           | (None, None) \<Rightarrow> (out, Some (Panic ''nil pointer dereference''))
           | (Some rows, None) \<Rightarrow>
               encodeWithSummary
                 [(''title'', typ @ '' '' @ qualifiedIdentifier sp tp @ [CHR 0x0A])]
                 ([''Name'', ''Type'', ''Nullable'', ''Default'']
                  @ (if verbose
                     then [''Size'', ''Decimal Digits'', ''Radix'', ''Octet Length'']
                     else []))
                 (map (describeTableDetails_scanValues verbose) (remaining (NewResultSet rows)))
                 (tableDetailsSummary w sp tp) out))"

definition describeSequences ::
  "Writer \<Rightarrow> string \<Rightarrow> string \<Rightarrow> bool \<Rightarrow> bool \<Rightarrow> written list
     \<Rightarrow> written list \<times> nat \<times> error option" where
  \<open>describeSequences w sp tp verbose showSystem out =
     (case Sequences (w_r w) of
        None \<Rightarrow> (out, 0, Some (Panic ''interface conversion''))
      | Some rd \<Rightarrow>
          (case rd (Filter0\<lparr>Schema := sp, Name := tp, WithSystem := showSystem\<rparr>) of
             (res, err) \<Rightarrow>
               (case hard_error err of
                  Some e \<Rightarrow> (out, 0, Some e)
                | None \<Rightarrow>
                    (case res of
                       None \<Rightarrow> (out, 0, None)
                     | Some rows \<Rightarrow>
                         (case forNext (NewResultSet rows)
                                 (\<lambda>s (out, found).
                                    ((out @ [EncodeAllSequences
                                        [(''footer'', ''off''),
                                         (''title'', ''Sequence "'' @ s_Schema s @ ''.''
                                            @ s_Name s @ ''"\<newline>'')] [s]],
                                      Suc found), None))
                                 (out, 0) of
                            ((out, found), err) \<Rightarrow> (out, found, None))))))\<close>

definition describeIndex :: "Writer \<Rightarrow> Index \<Rightarrow> written list \<Rightarrow> written list \<times> error option" where
  "describeIndex w i out =
     (case IndexColumns (w_r w) of
        None \<Rightarrow> (out, Some (Panic ''interface conversion''))
      | Some rd \<Rightarrow>
          (case rd (Filter0\<lparr>Schema := i_Schema i, Parent := i_Table i, Name := i_Name i\<rparr>) of
             (res, Some err) \<Rightarrow> (out, Some (Errorf ''failed to get index columns: %w'' [] err))
           | (None, None) \<Rightarrow> (out, Some (Panic ''nil pointer dereference''))
           | (Some rows, None) \<Rightarrow>
               if Len (NewResultSet rows) = 0 then (out, None)
               else
                 encodeWithSummary
                   [(''title'', ''Index '' @ qualifiedIdentifier (i_Schema i) (i_Name i)
                       @ [CHR 0x0A])]
                   [''Name'', ''Type'']
                   (map (\<lambda>f. [StrV (ic_Name f), StrV (ic_DataType f)])
                      (remaining (NewResultSet rows)))
                   (\<lambda>out.
                      (out @ [Fprintf ''%s%s, for table %s''
                                [if i_IsPrimary i = YES then ''primary key, '' else [],
                                 i_Type i, i_Table i]], 0, None))
                   out))"

text \<open>
  The three blocks of DescribeTableDetails, each on the output and the count
  \<open>found\<close> so far.
\<close>

definition DescribeTableDetails_tables ::
  "Writer \<Rightarrow> string \<Rightarrow> string \<Rightarrow> bool \<Rightarrow> bool \<Rightarrow> written list \<times> nat
     \<Rightarrow> (written list \<times> nat) \<times> error option" where
  "DescribeTableDetails_tables w sp tp verbose showSystem st =
     (case (Tables (w_r w), Columns (w_r w)) of
        (Some tr, Some cr) \<Rightarrow>
          (case tr (Filter0\<lparr>Schema := sp, Name := tp, WithSystem := showSystem\<rparr>) of
             (res, Some err) \<Rightarrow> (st, Some (Errorf ''failed to list tables: %w'' [] err))
           | (None, None) \<Rightarrow> (st, Some (Panic ''nil pointer dereference''))
           | (Some rows, None) \<Rightarrow>
               forNext
                 (if \<not> showSystem
                  then SetFilter (\<lambda>t. t_Schema t \<notin> systemSchemas w) (NewResultSet rows)
                  else NewResultSet rows)
                 (\<lambda>t (out, found).
                    case describeTableDetails w (t_Type t) (t_Schema t) (t_Name t)
                           verbose showSystem out of
                      (out, Some err) \<Rightarrow>
                        ((out, found),
                         Some (Errorf ''failed to describe %s %s.%s: %w''
                                 [t_Type t, t_Schema t, t_Name t] err))
                    | (out, None) \<Rightarrow> ((out, Suc found), None))
                 st)
      | _ \<Rightarrow> (st, None))"

definition DescribeTableDetails_sequences ::
  "Writer \<Rightarrow> string \<Rightarrow> string \<Rightarrow> bool \<Rightarrow> bool \<Rightarrow> written list \<times> nat
     \<Rightarrow> (written list \<times> nat) \<times> error option" where
  "DescribeTableDetails_sequences w sp tp verbose showSystem st =
     (case Sequences (w_r w) of
        Some sr \<Rightarrow>
          (case describeSequences w sp tp verbose showSystem (fst st) of
             (out, foundSeq, Some err) \<Rightarrow>
               ((out, snd st), Some (Errorf ''failed to describe sequences: %w'' [] err))
           | (out, foundSeq, None) \<Rightarrow> ((out, snd st + foundSeq), None))
      | None \<Rightarrow> (st, None))"

definition DescribeTableDetails_indexes ::
  "Writer \<Rightarrow> string \<Rightarrow> string \<Rightarrow> bool \<Rightarrow> bool \<Rightarrow> written list \<times> nat
     \<Rightarrow> (written list \<times> nat) \<times> error option" where
  "DescribeTableDetails_indexes w sp tp verbose showSystem st =
     (case (Indexes (w_r w), IndexColumns (w_r w)) of
        (Some ir, Some icr) \<Rightarrow>
          (case ir (Filter0\<lparr>Schema := sp, Name := tp, WithSystem := showSystem\<rparr>) of
             (res, err) \<Rightarrow>
               (case hard_error err of
                  Some e \<Rightarrow>
                    (st, Some (Errorf ''failed to list indexes for table %s: %w'' [tp] e))
                | None \<Rightarrow>
                    (case res of
                       None \<Rightarrow> (st, None)
                     | Some rows \<Rightarrow>
                         forNext
                           (if \<not> showSystem
                            then SetFilter (\<lambda>i. i_Schema i \<notin> systemSchemas w)
                                   (NewResultSet rows)
                            else NewResultSet rows)
                           (\<lambda>i (out, found).
                              case describeIndex w i out of
                                (out, Some err) \<Rightarrow>
                                  ((out, found),
                                   Some (Errorf
                                           ''failed to describe index %s from table %s.%s: %w''
                                           [i_Name i, i_Schema i, i_Table i] err))
                              | (out, None) \<Rightarrow> ((out, Suc found), None))
                           st)))
      | _ \<Rightarrow> (st, None))"

definition DescribeTableDetails ::
  "Writer \<Rightarrow> string \<Rightarrow> bool \<Rightarrow> bool \<Rightarrow> written list \<Rightarrow> written list \<times> error option" where
  "DescribeTableDetails w pattern verbose showSystem out =
     (case parsePattern pattern of
        ((sp, tp), Some err) \<Rightarrow>
          (out, Some (Errorf ''failed to parse search pattern: %w'' [] err))
      | ((sp, tp), None) \<Rightarrow>
     (case DescribeTableDetails_tables w sp tp verbose showSystem (out, 0) of
        ((out, found), Some err) \<Rightarrow> (out, Some err)
      | (st, None) \<Rightarrow>
     (case DescribeTableDetails_sequences w sp tp verbose showSystem st of
        ((out, found), Some err) \<Rightarrow> (out, Some err)
      | (st, None) \<Rightarrow>
     (case DescribeTableDetails_indexes w sp tp verbose showSystem st of
        ((out, found), Some err) \<Rightarrow> (out, Some err)
      | ((out, found), None) \<Rightarrow>
          if found = 0
          then (out @ [Fprintf RelationNotFound [pattern], Fprintln []], None)
          else (out, None)))))"

subsection \<open>ListTables\<close>

definition ListTables ::
  "Writer \<Rightarrow> string \<Rightarrow> string \<Rightarrow> bool \<Rightarrow> bool \<Rightarrow> written list \<Rightarrow> written list \<times> error option" where
  "ListTables w tableTypes' pattern verbose showSystem out =
     (case Tables (w_r w) of
        None \<Rightarrow> (out, Some (NotSupportedByDriver (CHR 0x5C # ''dt'')))
      | Some rd \<Rightarrow>
          let types = selectTypes (tableTypes w) tableTypes' in
          (case parsePattern pattern of
             ((sp, tp), Some err) \<Rightarrow>
               (out, Some (Errorf ''failed to parse search pattern: %w'' [] err))
           | ((sp, tp), None) \<Rightarrow>
               (case rd (Filter0\<lparr>Schema := sp, Name := tp, Types := types,
                           WithSystem := showSystem\<rparr>) of
                  (res, Some err) \<Rightarrow> (out, Some (Errorf ''failed to list tables: %w'' [] err))
                | (None, None) \<Rightarrow> (out, Some (Panic ''nil pointer dereference''))
                | (Some rows, None) \<Rightarrow>
                    let res = NewResultSet rows;
                        res = (if \<not> showSystem
                               then SetFilter (\<lambda>t. t_Schema t \<notin> systemSchemas w) res
                               else res)
                    in
                    if Len res = 0
                    then (out @ [Fprintf RelationNotFound [pattern], Fprintln []], None)
                    else
                      (out @ [EncodeAll [(''title'', ''List of relations'')]
                                ([''Name'', ''Type'']
                                 @ (if verbose then [''Rows'', ''Size'', ''Comment''] else []))
                                (map (\<lambda>f. [StrV (t_Name f), StrV (t_Type f)]
                                        @ (if verbose
                                           then [Int64V (t_Rows f), StrV (t_Size f),
                                                 StrV (t_Comment f)]
                                           else []))
                                   (remaining res))], None))))"

subsection \<open>ShowStats\<close>

text \<open>
  The slice expression \<open>xs[:n]\<close>, which panics when \<open>n\<close> is out of range. Go allows
  \<open>n\<close> up to the capacity of the slice; the model takes the capacity to be the length.
\<close>

definition slice_to :: "'a list \<Rightarrow> int \<Rightarrow> error + 'a list" where
  "slice_to xs n =
     (if n < 0 \<or> int (length xs) < n then Inl (Panic ''slice bounds out of range'')
      else Inr (take (nat n) xs))"

text \<open>The variable \<open>distFrac\<close> of the scan function, from the row count and the row.\<close>

definition ShowStats_distFrac :: "64 word \<Rightarrow> ColumnStat \<Rightarrow> float64" where
  "ShowStats_distFrac rows f =
     (if rows \<noteq> 0 \<and> cs_NumDistinct f \<noteq> rows
      then float64_div (float64_of_int64 (cs_NumDistinct f)) (float64_of_int64 rows)
      else Finite False 1 0)"

text \<open>
  The function passed to \<open>SetScanValues\<close>: the cells of one row, for the verbosity,
  the limit \<open>k\<close> and the row count that ShowStats has in scope.
\<close>

definition ShowStats_scanValues ::
  "bool \<Rightarrow> int \<Rightarrow> 64 word \<Rightarrow> ColumnStat \<Rightarrow> error + cell list" where
  "ShowStats_scanValues verbose k rows f =
     (let freqs = map Sprintf_4f (cs_TopNFreqs f);
          n = (if int (length freqs) < k then int (length freqs) else k);
          v = [StrV (cs_Schema f), StrV (cs_Table f), StrV (cs_Name f), IntV (cs_AvgWidth f),
               FloatV (cs_NullFrac f), Int64V (cs_NumDistinct f),
               StrV (Sprintf_4f (ShowStats_distFrac rows f))]
      in if verbose then
           (case slice_to (cs_TopN f) n of
              Inl e \<Rightarrow> Inl e
            | Inr topN \<Rightarrow>
                (case slice_to freqs n of
                   Inl e \<Rightarrow> Inl e
                 | Inr topFreqs \<Rightarrow>
                     Inr (v @ [StrV (cs_Min f), StrV (cs_Max f), StrV (cs_Mean f),
                               StrV (Join topN '', ''), StrV (Join topFreqs '', '')])))
         else Inr v)"

text \<open>The encoder scans the rows in order; a panic in the scan function ends it.\<close>

fun scanAll :: "('a \<Rightarrow> error + cell list) \<Rightarrow> 'a list \<Rightarrow> error + cell list list" where
  "scanAll scan [] = Inr []"
| "scanAll scan (x # xs) =
     (case scan x of
        Inl e \<Rightarrow> Inl e
      | Inr v \<Rightarrow> (case scanAll scan xs of Inl e \<Rightarrow> Inl e | Inr vs \<Rightarrow> Inr (v # vs)))"

text \<open>The row count that ShowStats reads from the first matching table, 0 without one.\<close>

definition ShowStats_rows :: "Writer \<Rightarrow> string \<Rightarrow> string \<Rightarrow> 64 word \<times> error option" where
  "ShowStats_rows w sp tp =
     (case Tables (w_r w) of
        None \<Rightarrow> (0, None)
      | Some tr \<Rightarrow>
          (case tr (Filter0\<lparr>Schema := sp, Name := tp\<rparr>) of
             (tables, Some err) \<Rightarrow> (0, Some (Errorf ''failed to get table entry: %w'' [] err))
           | (None, None) \<Rightarrow> (0, Some (Panic ''nil pointer dereference''))
           | (Some trows, None) \<Rightarrow>
               if fst (Next (NewResultSet trows))
               then (t_Rows (Get (snd (Next (NewResultSet trows)))), None)
               else (0, None)))"

definition ShowStats ::
  "Writer \<Rightarrow> string \<Rightarrow> string \<Rightarrow> bool \<Rightarrow> int \<Rightarrow> written list \<Rightarrow> written list \<times> error option" where
  "ShowStats w statTypes pattern verbose k out =
     (case ColumnStats (w_r w) of
        None \<Rightarrow> (out, Some (NotSupportedByDriver (CHR 0x5C # ''ss'')))
      | Some rd \<Rightarrow>
          (case parsePattern pattern of
             ((sp, tp), Some err) \<Rightarrow>
               (out, Some (Errorf ''failed to parse search pattern: %w'' [] err))
           | ((sp, tp), None) \<Rightarrow>
               (case ShowStats_rows w sp tp of
                  (rows, Some err) \<Rightarrow> (out, Some err)
                | (rows, None) \<Rightarrow>
                    (case rd (Filter0\<lparr>Schema := sp, Parent := tp,
                                Types := [''basic''] @ (if verbose then [''extended''] else [])\<rparr>) of
                       (res, Some err) \<Rightarrow>
                         (out, Some (Errorf ''failed to get column stats: %w'' [] err))
                     | (None, None) \<Rightarrow> (out, Some (Panic ''nil pointer dereference''))
                     | (Some srows, None) \<Rightarrow>
                         if Len (NewResultSet srows) = 0
                         then (out @ [Fprintf RelationNotFound [pattern], Fprintln []], None)
                         else
                           (case scanAll (ShowStats_scanValues verbose k rows)
                                   (remaining (NewResultSet srows)) of
                              Inl e \<Rightarrow> (out, Some e)
                            | Inr cells \<Rightarrow>
                                (out @ [EncodeAll [(''title'', ''Column stats'')]
                                          ([''Schema'', ''Table'', ''Name'', ''Average width'',
                                            ''Nulls fraction'', ''Distinct values'',
                                            ''Dist. fraction'']
                                           @ (if verbose
                                              then [''Minimum value'', ''Maximum value'',
                                                    ''Mean value'', ''Top N common values'',
                                                    ''Top N values freqs'']
                                              else []))
                                          cells], None))))))"

subsection \<open>Notions used to state the properties\<close>

text \<open>
  A loop over a list of rows that stops at the first error: what \<open>forNext\<close> computes on
  the rows a result set still yields.
\<close>

fun foldE :: "('a \<Rightarrow> 's \<Rightarrow> 's \<times> error option) \<Rightarrow> 'a list \<Rightarrow> 's \<Rightarrow> 's \<times> error option" where
  "foldE body [] s = (s, None)"
| "foldE body (x # xs) s =
     (case body x s of
        (s', Some e) \<Rightarrow> (s', Some e)
      | (s', None) \<Rightarrow> foldE body xs s')"

text \<open>
  A section of the summary: nothing at all, or the label on a line of its own followed
  by lines in the format of the section.
\<close>

definition has_format :: "string \<Rightarrow> written \<Rightarrow> bool" where
  "has_format fmt x = (case x of Fprintf f args \<Rightarrow> f = fmt | _ \<Rightarrow> False)"

definition section_of :: "string \<Rightarrow> string \<Rightarrow> written list \<Rightarrow> bool" where
  "section_of label fmt ws =
     (case ws of [] \<Rightarrow> True | x # lines \<Rightarrow> x = Fprintln label \<and> list_all (has_format fmt) lines)"

text \<open>
  The reading of "a bare NOT-NULL check" that the specification suggests: the clause is
  one column name followed by \<open>IS NOT NULL\<close> and nothing else. It is used to state
  where the filter of the code differs from it.
\<close>

definition bare_not_null_check :: "string \<Rightarrow> bool" where
  "bare_not_null_check clause =
     (HasSuffix clause '' IS NOT NULL''
      \<and> (let column = take (length clause - length '' IS NOT NULL'') clause
         in column \<noteq> [] \<and> CHR '' '' \<notin> set column))"

text \<open>
  The relations that a pattern matches: the rows of the three list queries of
  DescribeTableDetails that pass the system-schema filter, counted only where the
  capabilities that the block needs are present.
\<close>

definition matched_tables :: "Writer \<Rightarrow> string \<Rightarrow> string \<Rightarrow> bool \<Rightarrow> nat" where
  "matched_tables w sp tp showSystem =
     (case (Tables (w_r w), Columns (w_r w)) of
        (Some tr, Some cr) \<Rightarrow>
          (case tr (Filter0\<lparr>Schema := sp, Name := tp, WithSystem := showSystem\<rparr>) of
             (Some rows, err) \<Rightarrow>
               length (filter (\<lambda>t. showSystem \<or> t_Schema t \<notin> systemSchemas w) rows)
           | (None, err) \<Rightarrow> 0)
      | _ \<Rightarrow> 0)"

definition matched_sequences :: "Writer \<Rightarrow> string \<Rightarrow> string \<Rightarrow> bool \<Rightarrow> nat" where
  "matched_sequences w sp tp showSystem =
     (case Sequences (w_r w) of
        Some sr \<Rightarrow>
          (case sr (Filter0\<lparr>Schema := sp, Name := tp, WithSystem := showSystem\<rparr>) of
             (Some rows, err) \<Rightarrow> length rows
           | (None, err) \<Rightarrow> 0)
      | None \<Rightarrow> 0)"

definition matched_indexes :: "Writer \<Rightarrow> string \<Rightarrow> string \<Rightarrow> bool \<Rightarrow> nat" where
  "matched_indexes w sp tp showSystem =
     (case (Indexes (w_r w), IndexColumns (w_r w)) of
        (Some ir, Some icr) \<Rightarrow>
          (case ir (Filter0\<lparr>Schema := sp, Name := tp, WithSystem := showSystem\<rparr>) of
             (Some rows, err) \<Rightarrow>
               length (filter (\<lambda>i. showSystem \<or> i_Schema i \<notin> systemSchemas w) rows)
           | (None, err) \<Rightarrow> 0)
      | _ \<Rightarrow> 0)"

text \<open>
  The argument list of a function as the specification words it: the rows of the
  function with ordinal position 0 are left out; each other row gives the mode followed
  by a space (nothing when the mode is \<open>IN\<close> or empty), the name followed by a space
  (nothing when the name is empty) and the data type; the fragments are joined with a
  comma and a space. \<open>functionColumnsQuery\<close> is the one query that is due for a function.
\<close>

definition argFragment :: "FunctionColumn \<Rightarrow> string" where
  "argFragment c =
     (if fc_Type c = ''IN'' \<or> fc_Type c = [] then [] else fc_Type c @ '' '')
     @ (if fc_Name c = [] then [] else fc_Name c @ '' '')
     @ fc_DataType c"

definition functionColumnsQuery :: "Function \<Rightarrow> Filter" where
  "functionColumnsQuery f =
     Filter0\<lparr>Catalog := f_Catalog f, Schema := f_Schema f, Parent := f_SpecificName f\<rparr>"

definition functionArgTypes :: "(Filter \<Rightarrow> FunctionColumn reply) \<Rightarrow> Function \<Rightarrow> string" where
  "functionArgTypes fc f =
     (case fc (functionColumnsQuery f) of
        (Some cols, err) \<Rightarrow>
          Join (map argFragment (filter (\<lambda>c. fc_OrdinalPosition c \<noteq> 0) cols)) '', ''
      | (None, err) \<Rightarrow> [])"

definition enriched :: "(Filter \<Rightarrow> FunctionColumn reply) \<Rightarrow> Function \<Rightarrow> Function" where
  "enriched fc f = f\<lparr>f_ArgTypes := functionArgTypes fc f\<rparr>"

subsection \<open>The constructor and example readers\<close>

text \<open>NewIngresWriter without options: the default type tables and system schemas.\<close>

definition NewIngresWriter :: "Reader \<Rightarrow> Writer" where
  "NewIngresWriter rd =
     \<lparr>w_r = rd,
      tableTypes =
        [(CHR ''t'', [''TABLE'', ''BASE TABLE'', ''SYSTEM TABLE'', ''SYNONYM'',
                      ''LOCAL TEMPORARY'', ''GLOBAL TEMPORARY'']),
         (CHR ''v'', [''VIEW'', ''SYSTEM VIEW'']),
         (CHR ''s'', [''SEQUENCE''])],
      funcTypes =
        [(CHR ''a'', [''AGGREGATE'']), (CHR ''n'', [''FUNCTION'']), (CHR ''p'', [''PROCEDURE'']),
         (CHR ''t'', [''TRIGGER'']), (CHR ''w'', [''WINDOW''])],
      systemSchemas = {''information_schema''}\<rparr>"

text \<open>A reader that implements no capability.\<close>

definition noReader :: Reader where
  "noReader =
     \<lparr>Tables = None, Columns = None, Indexes = None, IndexColumns = None,
      Constraints = None, ConstraintColumns = None, Sequences = None, Triggers = None,
      Functions = None, FunctionColumns = None, ColumnStats = None\<rparr>"

text \<open>A reader whose foreign keys have two columns each.\<close>

definition fkColumns :: "ConstraintColumn list" where
  "fkColumns =
     [\<lparr>cc_Name = ''order_id'', cc_ForeignName = ''id''\<rparr>,
      \<lparr>cc_Name = ''region'', cc_ForeignName = ''area''\<rparr>]"

definition fkReader :: Reader where
  "fkReader = noReader\<lparr>ConstraintColumns := Some (\<lambda>flt. (Some fkColumns, None))\<rparr>"

text \<open>
  The statistics of one column with ten most common values: 25 distinct values, the
  frequencies 1/2, 1/4, 1/8 and seven times 1/64.
\<close>

definition statExample :: ColumnStat where
  "statExample =
     \<lparr>cs_Schema = ''public'', cs_Table = ''orders'', cs_Name = ''region'', cs_AvgWidth = 4,
      cs_NullFrac = Finite False 0 0, cs_NumDistinct = 25,
      cs_Min = ''a'', cs_Max = ''j'', cs_Mean = [],
      cs_TopN = [''a'', ''b'', ''c'', ''d'', ''e'', ''f'', ''g'', ''h'', ''i'', ''j''],
      cs_TopNFreqs = [Finite False 2 (- 2), Finite False 2 (- 3), Finite False 2 (- 4),
                      Finite False 2 (- 7), Finite False 2 (- 7), Finite False 2 (- 7),
                      Finite False 2 (- 7), Finite False 2 (- 7), Finite False 2 (- 7),
                      Finite False 2 (- 7)]\<rparr>"

text \<open>A reader whose only table lies in a system schema.\<close>

definition systemTable :: Table where
  "systemTable =
     \<lparr>t_Catalog = [], t_Schema = ''information_schema'', t_Name = ''tables'',
      t_Type = ''VIEW'', t_Rows = 0, t_Size = [], t_Comment = []\<rparr>"

definition systemTableReader :: Reader where
  "systemTableReader = noReader\<lparr>Tables := Some (\<lambda>flt. (Some [systemTable], None))\<rparr>"

text \<open>
  A reader for a table \<open>public.orders\<close> with one index, two check constraints (and a
  NOT NULL check), one outgoing and one incoming foreign key, and one trigger.
\<close>

definition newConstraint :: "string \<Rightarrow> string \<Rightarrow> string \<Rightarrow> string \<Rightarrow> string \<Rightarrow> Constraint" where
  "newConstraint table name type clause foreignTable =
     \<lparr>c_Catalog = [], c_Schema = ''public'', c_Table = table, c_Name = name, c_Type = type,
      c_CheckClause = clause, c_ForeignTable = foreignTable, c_UpdateRule = ''NO ACTION'',
      c_DeleteRule = ''CASCADE''\<rparr>"

definition ordersConstraints :: "Constraint list" where
  "ordersConstraints =
     [newConstraint ''orders'' ''qty_positive'' ''CHECK'' ''qty > 0'' [],
      newConstraint ''orders'' ''id_not_null'' ''CHECK'' ''id IS NOT NULL'' [],
      newConstraint ''orders'' ''orders_fk'' ''FOREIGN KEY'' [] ''customers'',
      newConstraint ''orders'' ''price_positive'' ''CHECK'' ''price > 0'' []]"

definition ordersReferences :: "Constraint list" where
  "ordersReferences = [newConstraint ''items'' ''items_fk'' ''FOREIGN KEY'' [] ''orders'']"

definition ordersColumns :: "Column list" where
  "ordersColumns =
     [\<lparr>col_Name = ''id'', col_DataType = ''integer'', col_IsNullable = ''NO'',
        col_Default = [], col_ColumnSize = 4, col_DecimalDigits = 0,
        col_NumPrecRadix = 10, col_CharOctetLength = 0\<rparr>]"

definition ordersReader :: Reader where
  "ordersReader =
     noReader\<lparr>
       Columns := Some (\<lambda>flt. (Some ordersColumns, None)),
       Indexes := Some (\<lambda>flt.
         (Some [\<lparr>i_Catalog = [], i_Schema = ''public'', i_Table = ''orders'',
                  i_Name = ''orders_pkey'', i_IsPrimary = ''YES'', i_IsUnique = ''YES'',
                  i_Type = ''btree'', i_Columns = []\<rparr>], None)),
       IndexColumns := Some (\<lambda>flt.
         (Some [\<lparr>ic_Name = ''id'', ic_DataType = ''integer''\<rparr>], None)),
       Constraints := Some (\<lambda>flt.
         if Reference flt = [] then (Some ordersConstraints, None)
         else (Some ordersReferences, None)),
       ConstraintColumns := Some (\<lambda>flt. (Some fkColumns, None)),
       Triggers := Some (\<lambda>flt.
         (Some [\<lparr>tr_Name = ''audit'', tr_Definition = ''AFTER INSERT''\<rparr>], None))\<rparr>"

text \<open>The same reader with the table itself in its list of tables.\<close>

definition ordersTable :: Table where
  "ordersTable =
     \<lparr>t_Catalog = [], t_Schema = ''public'', t_Name = ''orders'', t_Type = ''TABLE'',
      t_Rows = 100, t_Size = [], t_Comment = []\<rparr>"

definition ordersTableReader :: Reader where
  "ordersTableReader =
     ordersReader\<lparr>Tables := Some (\<lambda>flt. (Some [ordersTable], None)),
                  Indexes := None\<rparr>"

text \<open>The same reader, but its query for the incoming foreign keys fails.\<close>

definition brokenReferencesReader :: Reader where
  "brokenReferencesReader =
     ordersReader\<lparr>
       Constraints := Some (\<lambda>flt.
         if Reference flt = [] then (Some ordersConstraints, None)
         else (None, Some (Failure ''connection reset'')))\<rparr>"

text \<open>A reader whose only constraint is a check with two conditions.\<close>

definition compoundCheck :: Constraint where
  "compoundCheck =
     newConstraint ''orders'' ''qty_and_note'' ''CHECK'' ''qty > 0 AND note IS NOT NULL'' []"

definition compoundCheckReader :: Reader where
  "compoundCheckReader = noReader\<lparr>Constraints := Some (\<lambda>flt. (Some [compoundCheck], None))\<rparr>"

text \<open>
  A reader with two functions, one of them in a system schema, whose parameters are a
  result row (ordinal 0), an \<open>IN\<close> parameter with a name and an \<open>INOUT\<close> parameter
  without one.
\<close>

definition newFunction :: "string \<Rightarrow> string \<Rightarrow> string \<Rightarrow> Function" where
  "newFunction schema name specificName =
     \<lparr>f_Catalog = [], f_Schema = schema, f_Name = name, f_SpecificName = specificName,
      f_ResultType = ''integer'', f_ArgTypes = [], f_Type = ''FUNCTION'', f_Volatility = [],
      f_Security = [], f_Language = ''sql'', f_Source = []\<rparr>"

definition exampleFunctions :: "Function list" where
  "exampleFunctions =
     [newFunction ''information_schema'' ''version'' ''version_1'',
      newFunction ''public'' ''add'' ''add_1'']"

definition exampleFunctionColumns :: "FunctionColumn list" where
  "exampleFunctionColumns =
     [\<lparr>fc_OrdinalPosition = 0, fc_Type = ''OUT'', fc_Name = [], fc_DataType = ''integer''\<rparr>,
      \<lparr>fc_OrdinalPosition = 1, fc_Type = ''IN'', fc_Name = ''a'', fc_DataType = ''integer''\<rparr>,
      \<lparr>fc_OrdinalPosition = 2, fc_Type = ''INOUT'', fc_Name = [], fc_DataType = ''text''\<rparr>]"

definition functionReader :: Reader where
  "functionReader =
     noReader\<lparr>Functions := Some (\<lambda>flt. (Some exampleFunctions, None)),
              FunctionColumns := Some (\<lambda>flt. (Some exampleFunctionColumns, None))\<rparr>"

text \<open>The replacement of every \<open>*\<close> by \<open>%\<close>, character by character.\<close>

definition star_to_percent :: "string \<Rightarrow> string" where
  "star_to_percent s = map (\<lambda>c. if c = CHR ''*'' then CHR ''%'' else c) s"

section \<open>Properties\<close>

subsection \<open>Result sets and loops\<close>

lemma skip_split:
  assumes "length (takeWhile (\<lambda>x. \<not> p x) d) < length d"
  shows "\<exists>y. p y
           \<and> d = takeWhile (\<lambda>x. \<not> p x) d @ y # drop (Suc (length (takeWhile (\<lambda>x. \<not> p x) d))) d
           \<and> y = d ! length (takeWhile (\<lambda>x. \<not> p x) d)"
proof -
  define tw where "tw = takeWhile (\<lambda>x. \<not> p x) d"
  define dw where "dw = dropWhile (\<lambda>x. \<not> p x) d"
  have split: "d = tw @ dw" by (simp add: tw_def dw_def)
  have "length tw < length d" using assms by (simp add: tw_def)
  then have ne: "dw \<noteq> []" using split by auto
  then obtain y ys where dw: "dw = y # ys" by (cases dw) auto
  have "\<not> \<not> p (hd dw)" unfolding dw_def using ne[unfolded dw_def] by (rule hd_dropWhile)
  then have py: "p y" using dw by simp
  have d: "d = tw @ y # ys" using split dw by simp
  have "drop (Suc (length tw)) d = ys" by (subst d) simp
  moreover have "d ! length tw = y" by (subst d) simp
  ultimately show ?thesis using py d unfolding tw_def by auto
qed

lemma Next_True:
  assumes "fst (Next res)"
  shows "remaining res = Get (snd (Next res)) # remaining (snd (Next res))"
proof -
  let ?p = "rs_filter res"
  let ?d = "drop (current res) (results res)"
  let ?tw = "takeWhile (\<lambda>x. \<not> ?p x) ?d"
  have len: "current res + length ?tw < length (results res)"
    using assms by (simp add: Next_def Let_def)
  then have "length ?tw < length ?d" by simp
  from skip_split[OF this] obtain y where py: "?p y"
    and d: "?d = ?tw @ y # drop (Suc (length ?tw)) ?d" and y: "y = ?d ! length ?tw"
    by blast
  have notp: "filter ?p ?tw = []"
    by (auto simp: filter_empty_conv dest: set_takeWhileD)
  have "filter ?p ?d = filter ?p (?tw @ y # drop (Suc (length ?tw)) ?d)"
    using d by simp
  also have "\<dots> = y # filter ?p (drop (Suc (length ?tw)) ?d)"
    using notp py by simp
  finally have f: "filter ?p ?d = y # filter ?p (drop (Suc (length ?tw)) ?d)" .
  have y': "y = results res ! (current res + length ?tw)"
    using y len by simp
  show ?thesis
    using f by (simp add: remaining_def Next_def Let_def Get_def y' ac_simps)
qed

lemma Next_False:
  assumes "\<not> fst (Next res)"
  shows "remaining res = []"
proof -
  let ?p = "rs_filter res"
  let ?d = "drop (current res) (results res)"
  let ?tw = "takeWhile (\<lambda>x. \<not> ?p x) ?d"
  have "length (results res) \<le> current res + length ?tw"
    using assms by (simp add: Next_def Let_def)
  then have "length ?d \<le> length ?tw" by simp
  moreover have "?d = ?tw @ dropWhile (\<lambda>x. \<not> ?p x) ?d" by simp
  ultimately have "dropWhile (\<lambda>x. \<not> ?p x) ?d = []"
    by (metis add_le_same_cancel1 le_zero_eq length_0_conv length_append)
  then have "\<forall>x\<in>set ?d. \<not> ?p x"
    by (simp add: dropWhile_eq_Nil_conv)
  then show ?thesis by (simp add: remaining_def)
qed

text \<open>A loop over a result set visits exactly the rows that remain, in order.\<close>

lemma forNext_foldE: "forNext res body s = foldE body (remaining res) s"
proof (induction res body s rule: forNext.induct)
  case (1 res body s)
  show ?case
  proof (cases "fst (Next res)")
    case True
    show ?thesis
      using True 1 Next_True[OF True]
      by (subst forNext.simps) (auto split: prod.splits option.splits)
  next
    case False
    then show ?thesis
      using Next_False[OF False] by (subst forNext.simps) simp
  qed
qed

lemma remaining_New [simp]: "remaining (NewResultSet rows) = rows"
  by (simp add: remaining_def NewResultSet_def)

lemma remaining_SetFilter_New [simp]:
  "remaining (SetFilter p (NewResultSet rows)) = filter p rows"
  by (simp add: remaining_def NewResultSet_def SetFilter_def)

lemma Len_New [simp]: "Len (NewResultSet rows) = length rows"
  by (simp add: Len_def NewResultSet_def)

lemma Len_SetFilter_New [simp]:
  "Len (SetFilter p (NewResultSet rows)) = length (filter p rows)"
  by (simp add: Len_def NewResultSet_def SetFilter_def)

subsection \<open>parsePattern\<close>

lemma ReplaceAll_single:
  "ReplaceAll s [a] [b] = map (\<lambda>c. if c = a then b else c) s"
  by (induction s) auto

lemma Index_first_char:
  "strings_Index s [d] = (if d \<in> set s then Some (length (takeWhile (\<lambda>c. c \<noteq> d) s)) else None)"
  by (induction s) auto

lemma SplitN_first_char:
  assumes "d \<in> set s"
  shows "SplitN s [d] 2 = [takeWhile (\<lambda>c. c \<noteq> d) s, tl (dropWhile (\<lambda>c. c \<noteq> d) s)]"
proof -
  let ?n = "length (takeWhile (\<lambda>c. c \<noteq> d) s)"
  have t: "take ?n s = takeWhile (\<lambda>c. c \<noteq> d) s"
    by (metis append_eq_conv_conj takeWhile_dropWhile_id)
  have d: "drop (Suc ?n) s = tl (dropWhile (\<lambda>c. c \<noteq> d) s)"
    by (metis append_eq_conv_conj drop_Suc drop_tl takeWhile_dropWhile_id)
  have "SplitN s [d] (Suc (Suc 0)) = [take ?n s, drop (Suc ?n) s]"
    using assms by (simp add: Index_first_char)
  then show ?thesis
    by (simp add: t d numeral_2_eq_2)
qed

lemma parsePattern_no_error: "snd (parsePattern pattern) = None"
  by (simp add: parsePattern_def ContainsRune_def SplitN_first_char)

text \<open>
  C3. parsePattern returns without error on every input. With a dot in the input,
  the schema fragment is the part before the first dot and the name fragment the part
  after it; without one, the schema fragment is empty and the name fragment the whole
  input. In both fragments every \<open>*\<close> has become \<open>%\<close> and every other character
  is unchanged.
\<close>

theorem parsePattern_total_split:
  "parsePattern pattern =
     ((if CHR ''.'' \<in> set pattern
       then (star_to_percent (takeWhile (\<lambda>c. c \<noteq> CHR ''.'') pattern),
             star_to_percent (tl (dropWhile (\<lambda>c. c \<noteq> CHR ''.'') pattern)))
       else ([], star_to_percent pattern)), None)"
  by (simp add: parsePattern_def ContainsRune_def SplitN_first_char ReplaceAll_single
      star_to_percent_def)

theorem parsePattern_total_split_witness:
  "parsePattern ''tutorial.hits_v1'' = ((''tutorial'', ''hits_v1''), None)
   \<and> parsePattern ''hits_v1'' = (([], ''hits_v1''), None)
   \<and> parsePattern ''tut*.h*'' = ((''tut%'', ''h%''), None)"
  using parsePattern_total_split [of "''tutorial.hits_v1''"]
    parsePattern_total_split [of "''hits_v1''"]
    parsePattern_total_split [of "''tut*.h*''"]
  by (simp add: star_to_percent_def)

subsection \<open>getConstraintColumns\<close>

lemma foldE_constraint_columns:
  "foldE (\<lambda>col (columns, foreignColumns).
            ((columns @ [cc_Name col], foreignColumns @ [cc_ForeignName col]), None))
     rows (a, b)
   = ((a @ map cc_Name rows, b @ map cc_ForeignName rows), None)"
  by (induction rows arbitrary: a b) auto

lemma zip_names:
  "zip (map cc_Name rows) (map cc_ForeignName rows)
     = map (\<lambda>row. (cc_Name row, cc_ForeignName row)) rows"
  by (induction rows) auto

text \<open>
  C10. With the ConstraintColumnReader present, getConstraintColumns returns two lists
  joined with a comma and a space that have the same number of elements; when the
  query succeeds there is one element per constraint-column row, the column name of a
  row in the first list at the position of its foreign column name in the second. An
  error of the query is returned with two empty lists.
\<close>

theorem getConstraintColumns_parallel:
  assumes "ConstraintColumns (w_r w) = Some rd"
  shows "\<exists>columns foreignColumns err.
           getConstraintColumns w c s t n
             = ((Join columns '', '', Join foreignColumns '', ''), err)
           \<and> length columns = length foreignColumns
           \<and> (\<forall>rows. rd (Filter0\<lparr>Catalog := c, Schema := s, Parent := t, Name := n\<rparr>)
                        = (Some rows, None)
                \<longrightarrow> err = None
                    \<and> zip columns foreignColumns
                        = map (\<lambda>row. (cc_Name row, cc_ForeignName row)) rows)"
proof (cases "rd (Filter0\<lparr>Catalog := c, Schema := s, Parent := t, Name := n\<rparr>)")
  case (Pair res err)
  show ?thesis
  proof (cases "\<exists>rows. res = Some rows \<and> err = None")
    case False
    have "\<exists>e. getConstraintColumns w c s t n = ((Join [] '', '', Join [] '', ''), Some e)"
    proof (cases err)
      case None
      then have "res = None" using False by (cases res) auto
      then show ?thesis using assms Pair None by (simp add: getConstraintColumns_def)
    next
      case (Some e)
      then show ?thesis using assms Pair
        by (cases res) (simp_all add: getConstraintColumns_def)
    qed
    then obtain e where
      e: "getConstraintColumns w c s t n = ((Join [] '', '', Join [] '', ''), Some e)" by blast
    show ?thesis
      using e Pair False
      by (intro exI[of _ "[]"] exI[of _ "Some e"]) auto
  next
    case True
    then obtain rows where rows: "res = Some rows" "err = None" by blast
    have "getConstraintColumns w c s t n
            = ((Join (map cc_Name rows) '', '', Join (map cc_ForeignName rows) '', ''), None)"
      using assms Pair rows
      by (simp add: getConstraintColumns_def forNext_foldE foldE_constraint_columns)
    then show ?thesis using Pair rows zip_names[of rows]
      by (intro exI[of _ "map cc_Name rows"] exI[of _ "map cc_ForeignName rows"] exI[of _ None])
        simp
  qed
qed

theorem getConstraintColumns_parallel_witness:
  "ConstraintColumns (w_r (NewIngresWriter fkReader)) = Some (\<lambda>flt. (Some fkColumns, None))
   \<and> getConstraintColumns (NewIngresWriter fkReader) ''db'' ''public'' ''orders'' ''orders_fk''
       = ((''order_id, region'', ''id, area''), None)"
proof -
  have h: "ConstraintColumns (w_r (NewIngresWriter fkReader)) = Some (\<lambda>flt. (Some fkColumns, None))"
    by (simp add: NewIngresWriter_def fkReader_def)
  from getConstraintColumns_parallel[OF h, of "''db''" "''public''" "''orders''" "''orders_fk''"]
  obtain columns foreignColumns err where
    r: "getConstraintColumns (NewIngresWriter fkReader) ''db'' ''public'' ''orders'' ''orders_fk''
          = ((Join columns '', '', Join foreignColumns '', ''), err)"
    and l: "length columns = length foreignColumns"
    and z: "err = None \<and> zip columns foreignColumns
              = map (\<lambda>row. (cc_Name row, cc_ForeignName row)) fkColumns"
    by auto
  have "columns = map fst (zip columns foreignColumns)" using l by simp
  also have "\<dots> = map cc_Name fkColumns" using z by (simp add: comp_def)
  finally have c: "columns = map cc_Name fkColumns" .
  have "foreignColumns = map snd (zip columns foreignColumns)" using l by simp
  also have "\<dots> = map cc_ForeignName fkColumns" using z by (simp add: comp_def)
  finally have "foreignColumns = map cc_ForeignName fkColumns" .
  with c have "columns = map cc_Name fkColumns \<and> foreignColumns = map cc_ForeignName fkColumns"
    by simp
  then show ?thesis using h r z by (simp add: fkColumns_def)
qed

subsection \<open>ShowStats\<close>

lemmas float_eval = Sprintf_4f.simps round_half_even_def Let_def four_digits_def digit_def
  float64_of_int64_def round_float64_def floor_log2_def

lemma Sprintf_4f_one: "Sprintf_4f (Finite False 1 0) = ''1.0000''"
  by (simp add: float_eval)

lemma Sprintf_4f_Suc0: "Sprintf_4f (Finite False (Suc 0) 0) = ''1.0000''"
  using Sprintf_4f_one by simp

text \<open>
  C7. For a column statistic whose lists of top values and of top frequencies have the
  same length, and a limit \<open>k\<close> that is not negative, the verbose scan of ShowStats
  succeeds and its last two cells join the first \<open>min k length\<close> top values and the
  first \<open>min k length\<close> frequencies (each formatted with \<open>%.4f\<close>), in the order of
  the lists.
\<close>

theorem ShowStats_scanValues_topN:
  assumes "length (cs_TopN f) = length (cs_TopNFreqs f)" and "0 \<le> k"
  shows "ShowStats_scanValues True k rows f =
           Inr ([StrV (cs_Schema f), StrV (cs_Table f), StrV (cs_Name f), IntV (cs_AvgWidth f),
                 FloatV (cs_NullFrac f), Int64V (cs_NumDistinct f),
                 StrV (Sprintf_4f (ShowStats_distFrac rows f)),
                 StrV (cs_Min f), StrV (cs_Max f), StrV (cs_Mean f),
                 StrV (Join (take (min (nat k) (length (cs_TopN f))) (cs_TopN f)) '', ''),
                 StrV (Join (map Sprintf_4f
                         (take (min (nat k) (length (cs_TopNFreqs f))) (cs_TopNFreqs f))) '', '')])"
proof -
  let ?n = "if int (length (map Sprintf_4f (cs_TopNFreqs f))) < k
            then int (length (map Sprintf_4f (cs_TopNFreqs f))) else k"
  have n: "nat ?n = min (nat k) (length (cs_TopNFreqs f))" "0 \<le> ?n"
    "?n \<le> int (length (cs_TopNFreqs f))"
    using assms by auto
  have 1: "slice_to (cs_TopN f) ?n
             = Inr (take (min (nat k) (length (cs_TopN f))) (cs_TopN f))"
    using n assms(1) by (simp add: slice_to_def)
  have 2: "slice_to (map Sprintf_4f (cs_TopNFreqs f)) ?n
             = Inr (map Sprintf_4f (take (min (nat k) (length (cs_TopNFreqs f))) (cs_TopNFreqs f)))"
    using n by (simp add: slice_to_def take_map)
  show ?thesis
    unfolding ShowStats_scanValues_def Let_def using 1 2 by simp
qed

lemma statExample_freqs:
  "map Sprintf_4f (take 3 (cs_TopNFreqs statExample)) = [''0.5000'', ''0.2500'', ''0.1250'']"
  by (simp add: statExample_def float_eval)

theorem ShowStats_scanValues_topN_witness:
  "length (cs_TopN statExample) = length (cs_TopNFreqs statExample) \<and> (0::int) \<le> 3
   \<and> ShowStats_scanValues True 3 0 statExample =
       Inr [StrV ''public'', StrV ''orders'', StrV ''region'', IntV 4,
            FloatV (Finite False 0 0), Int64V 25, StrV ''1.0000'',
            StrV ''a'', StrV ''j'', StrV [],
            StrV ''a, b, c'', StrV ''0.5000, 0.2500, 0.1250'']"
proof -
  have h1: "length (cs_TopN statExample) = length (cs_TopNFreqs statExample)"
    by (simp add: statExample_def)
  have h2: "(0::int) \<le> 3" by simp
  have l: "length (cs_TopNFreqs statExample) = 10" "length (cs_TopN statExample) = 10"
    by (simp_all add: statExample_def)
  have t: "take 3 (cs_TopN statExample) = [''a'', ''b'', ''c'']"
    by (simp add: statExample_def)
  have d: "ShowStats_distFrac 0 statExample = Finite False 1 0"
    by (simp add: ShowStats_distFrac_def)
  show ?thesis
    using ShowStats_scanValues_topN[OF h1 h2, of 0] h1
    by (simp add: l t d statExample_freqs Sprintf_4f_one Sprintf_4f_Suc0) (simp add: statExample_def)
qed

text \<open>
  C2, as amended. The distinct fraction that ShowStats renders for a column statistic is
  \<open>1.0000\<close> when the row count of the table is 0 or when numDistinct equals the row
  count; otherwise it is the float64 quotient of numDistinct and the row count,
  formatted to four decimal places.
\<close>

theorem ShowStats_distFrac_cell:
  assumes "ShowStats_scanValues verbose k rows f = Inr cells"
  shows "cells ! 6 =
           StrV (if rows = 0 \<or> cs_NumDistinct f = rows then ''1.0000''
                 else Sprintf_4f (float64_div (float64_of_int64 (cs_NumDistinct f))
                                    (float64_of_int64 rows)))"
proof -
  have "cells ! 6 = StrV (Sprintf_4f (ShowStats_distFrac rows f))"
    using assms
    by (auto simp: ShowStats_scanValues_def Let_def nth_append split: if_splits sum.splits)
  then show ?thesis
    by (simp add: ShowStats_distFrac_def Sprintf_4f_one Sprintf_4f_Suc0)
qed

lemma quarter: "Sprintf_4f (float64_div (float64_of_int64 25) (float64_of_int64 100)) = ''0.2500''"
  by (simp add: float_eval)

theorem ShowStats_distFrac_cell_witness:
  "ShowStats_scanValues False 3 100 statExample =
     Inr [StrV ''public'', StrV ''orders'', StrV ''region'', IntV 4,
          FloatV (Finite False 0 0), Int64V 25, StrV ''0.2500'']
   \<and> [StrV ''public'', StrV ''orders'', StrV ''region'', IntV 4,
        FloatV (Finite False 0 0), Int64V 25, StrV ''0.2500''] ! 6 = StrV ''0.2500''"
proof -
  have d: "ShowStats_distFrac 100 statExample
             = float64_div (float64_of_int64 25) (float64_of_int64 100)"
    by (simp add: ShowStats_distFrac_def statExample_def)
  have h: "ShowStats_scanValues False 3 100 statExample =
     Inr [StrV ''public'', StrV ''orders'', StrV ''region'', IntV 4,
          FloatV (Finite False 0 0), Int64V 25, StrV ''0.2500'']"
    by (simp add: ShowStats_scanValues_def Let_def d quarter) (simp add: statExample_def)
  show ?thesis
    using ShowStats_distFrac_cell[OF h] h by simp
qed

text \<open>
  With a row count of 0 the distinct fraction of a column with 25 distinct values is
  rendered as \<open>1.0000\<close>, where a value of 0 would be rendered as \<open>0.0000\<close>.
\<close>

theorem ShowStats_distFrac_zero_rows_counterexample:
  "ShowStats_scanValues False 3 0 statExample =
     Inr [StrV ''public'', StrV ''orders'', StrV ''region'', IntV 4,
          FloatV (Finite False 0 0), Int64V 25, StrV ''1.0000'']
   \<and> Sprintf_4f (Finite False 0 0) = ''0.0000''
   \<and> Sprintf_4f (float64_of_int64 0) = ''0.0000''"
proof -
  have d: "ShowStats_distFrac 0 statExample = Finite False 1 0"
    by (simp add: ShowStats_distFrac_def)
  have "ShowStats_scanValues False 3 0 statExample =
     Inr [StrV ''public'', StrV ''orders'', StrV ''region'', IntV 4,
          FloatV (Finite False 0 0), Int64V 25, StrV ''1.0000'']"
    by (simp add: ShowStats_scanValues_def Let_def d Sprintf_4f_one Sprintf_4f_Suc0) (simp add: statExample_def)
  moreover have "Sprintf_4f (Finite False 0 0) = ''0.0000''" by (simp add: float_eval)
  moreover have "Sprintf_4f (float64_of_int64 0) = ''0.0000''" by (simp add: float_eval)
  ultimately show ?thesis by simp
qed


subsection \<open>ListTables\<close>

text \<open>
  C9. When the TableReader is present, the query for the parsed pattern succeeds and no
  row is left after the system-schema filter (which is applied unless system objects
  are requested), ListTables writes the "relation not found" message for the pattern,
  followed by a newline, and returns no error.
\<close>

theorem ListTables_empty_not_found:
  assumes "Tables (w_r w) = Some rd"
    and "fst (parsePattern pattern) = (sp, tp)"
    and "rd (Filter0\<lparr>Schema := sp, Name := tp, Types := selectTypes (tableTypes w) codes,
               WithSystem := showSystem\<rparr>) = (Some rows, None)"
    and "filter (\<lambda>t. showSystem \<or> t_Schema t \<notin> systemSchemas w) rows = []"
  shows "ListTables w codes pattern verbose showSystem out
           = (out @ [Fprintf RelationNotFound [pattern], Fprintln []], None)"
proof -
  have p: "parsePattern pattern = ((sp, tp), None)"
    using assms(2) parsePattern_no_error[of pattern] by (cases "parsePattern pattern") simp
  show ?thesis
  proof (cases showSystem)
    case True
    then have "rows = []" using assms(4) by simp
    then show ?thesis using assms(1,3) p True by (simp add: ListTables_def)
  next
    case False
    then show ?thesis using assms(1,3,4) p by (simp add: ListTables_def Let_def)
  qed
qed

theorem ListTables_empty_not_found_witness:
  "ListTables (NewIngresWriter systemTableReader) ''tv'' ''tab*'' False False []
     = ([Fprintf RelationNotFound [''tab*''], Fprintln []], None)"
proof -
  let ?w = "NewIngresWriter systemTableReader"
  have 1: "Tables (w_r ?w) = Some (\<lambda>flt. (Some [systemTable], None))"
    by (simp add: NewIngresWriter_def systemTableReader_def)
  have 2: "fst (parsePattern ''tab*'') = ([], ''tab%'')"
    by (simp add: parsePattern_def ContainsRune_def ReplaceAll_single)
  have 4: "filter (\<lambda>t. False \<or> t_Schema t \<notin> systemSchemas ?w) [systemTable] = []"
    by (simp add: NewIngresWriter_def systemTable_def)
  show ?thesis
    using ListTables_empty_not_found[OF 1 2 _ 4, of "''tv''" False "[]"] by simp
qed

subsection \<open>The sections of the summary\<close>

lemma foldE_lines:
  assumes "\<And>x out. \<exists>ls e. body x out = (out @ ls, e) \<and> list_all Q ls"
  shows "\<exists>ls e. foldE body xs out = (out @ ls, e) \<and> list_all Q ls"
proof (induction xs arbitrary: out)
  case Nil
  show ?case by simp
next
  case (Cons x xs)
  from assms[of x out] obtain ls e where b: "body x out = (out @ ls, e)" and q: "list_all Q ls"
    by blast
  show ?case
  proof (cases e)
    case (Some err)
    then show ?thesis using b q by auto
  next
    case None
    from Cons.IH[of "out @ ls"] obtain ls' e' where
      "foldE body xs (out @ ls) = ((out @ ls) @ ls', e')" and "list_all Q ls'"
      by blast
    then have "foldE body (x # xs) out = (out @ (ls @ ls'), e')" "list_all Q (ls @ ls')"
      using b None q by simp_all
    then show ?thesis by blast
  qed
qed

lemma section_ofI:
  "list_all (has_format fmt) ls \<Longrightarrow> section_of label fmt (Fprintln label # ls)"
  by (simp add: section_of_def)

lemma section_of_Nil: "section_of label fmt []"
  by (simp add: section_of_def)

lemma loop_section:
  assumes "\<And>x out. \<exists>ls e. body x out = (out @ ls, e) \<and> list_all (has_format fmt) ls"
  shows "\<exists>s err. forNext res body (out @ [Fprintln label]) = (out @ s, err)
                 \<and> section_of label fmt s"
proof -
  from foldE_lines[of body "has_format fmt" "remaining res" "out @ [Fprintln label]", OF assms]
  obtain ls e where "foldE body (remaining res) (out @ [Fprintln label])
      = ((out @ [Fprintln label]) @ ls, e)" and "list_all (has_format fmt) ls"
    by blast
  then have "forNext res body (out @ [Fprintln label]) = (out @ (Fprintln label # ls), e)"
    "section_of label fmt (Fprintln label # ls)"
    by (simp_all add: forNext_foldE section_ofI)
  then show ?thesis by blast
qed

lemma describeTableIndexes_body_line:
  "\<exists>ls e. describeTableIndexes_body w i out = (out @ ls, e) \<and> list_all (has_format indexFormat) ls"
proof (cases "getIndexColumns w (i_Catalog i) (i_Schema i) (i_Table i) (i_Name i)")
  case (Pair columns err)
  show ?thesis
  proof (cases err)
    case None
    then show ?thesis using Pair
      by (simp add: describeTableIndexes_body_def Let_def has_format_def)
  next
    case (Some e)
    then have "describeTableIndexes_body w i out
        = (out @ [], Some (Errorf ''failed to get columns of index %s: %w'' [i_Name i] e))"
      using Pair by (simp add: describeTableIndexes_body_def Let_def)
    moreover have "list_all (has_format F) []" for F by simp
    ultimately show ?thesis by blast
  qed
qed

lemma describeTableIndexes_section:
  "\<exists>s err. describeTableIndexes w out sp tp = (out @ s, err) \<and> section_of ''Indexes:'' indexFormat s"
proof -
  have none: "\<And>e. \<exists>s err. (out, e) = (out @ s, err) \<and> section_of ''Indexes:'' indexFormat s"
    using section_of_Nil by fastforce
  show ?thesis
    unfolding describeTableIndexes_def
    using none loop_section[OF describeTableIndexes_body_line]
    by (auto split: option.splits prod.splits)
qed

lemma describeTableTriggers_section:
  "\<exists>s err. describeTableTriggers w out sp tp = (out @ s, err)
     \<and> section_of ''Triggers:'' triggerFormat s"
proof -
  have none: "\<And>e. \<exists>s err. (out, e) = (out @ s, err) \<and> section_of ''Triggers:'' triggerFormat s"
    using section_of_Nil by fastforce
  have line: "\<And>t out. \<exists>ls e. (out @ [Fprintf triggerFormat [tr_Name t, tr_Definition t]], None)
       = (out @ ls, e) \<and> list_all (has_format triggerFormat) ls"
    by (simp add: has_format_def)
  show ?thesis
    unfolding describeTableTriggers_def
    using none loop_section[of "\<lambda>t out. (out @ [Fprintf triggerFormat [tr_Name t, tr_Definition t]], None)", OF line]
    by (auto split: option.splits prod.splits)
qed

lemma describeTableConstraints_section:
  assumes "\<And>out c. \<exists>ls e. printer out c = (out @ ls, e) \<and> list_all (has_format fmt) ls"
  shows "\<exists>s err. describeTableConstraints w out flt postFilter label printer = (out @ s, err)
           \<and> section_of label fmt s"
proof -
  have none: "\<And>e. \<exists>s err. (out, e) = (out @ s, err) \<and> section_of label fmt s"
    using section_of_Nil by fastforce
  have line: "\<And>c out. \<exists>ls e. (\<lambda>c out. printer out c) c out = (out @ ls, e)
      \<and> list_all (has_format fmt) ls"
    using assms by simp
  show ?thesis
    unfolding describeTableConstraints_def Let_def
    using none loop_section[of "\<lambda>c out. printer out c", OF line]
    by (auto split: option.splits prod.splits)
qed

lemma checkPrinter_line:
  "\<exists>ls e. checkPrinter out c = (out @ ls, e) \<and> list_all (has_format checkFormat) ls"
  by (simp add: checkPrinter_def has_format_def)

lemma foreignKeyPrinter_line:
  "\<exists>ls e. foreignKeyPrinter w out c = (out @ ls, e) \<and> list_all (has_format foreignKeyFormat) ls"
proof (cases "getConstraintColumns w (c_Catalog c) (c_Schema c) (c_Table c) (c_Name c)")
  case (Pair cols err)
  obtain a b where cols: "cols = (a, b)" by (cases cols)
  show ?thesis
  proof (cases err)
    case None
    then show ?thesis using Pair cols by (simp add: foreignKeyPrinter_def has_format_def)
  next
    case (Some e)
    then have "foreignKeyPrinter w out c = (out @ [], Some e)"
      using Pair cols by (simp add: foreignKeyPrinter_def)
    moreover have "list_all (has_format F) []" for F by simp
    ultimately show ?thesis by blast
  qed
qed

lemma referencedByPrinter_line:
  "\<exists>ls e. referencedByPrinter w out c = (out @ ls, e)
     \<and> list_all (has_format referencedByFormat) ls"
proof (cases "getConstraintColumns w (c_Catalog c) (c_Schema c) (c_Table c) (c_Name c)")
  case (Pair cols err)
  obtain a b where cols: "cols = (a, b)" by (cases cols)
  show ?thesis
  proof (cases err)
    case None
    then show ?thesis using Pair cols by (simp add: referencedByPrinter_def has_format_def)
  next
    case (Some e)
    then have "referencedByPrinter w out c = (out @ [], Some e)"
      using Pair cols by (simp add: referencedByPrinter_def)
    moreover have "list_all (has_format F) []" for F by simp
    ultimately show ?thesis by blast
  qed
qed

lemma tableDetailsSummary_sections:
  "\<exists>s1 s2 s3 s4 s5 err.
     tableDetailsSummary w sp tp out = (out @ s1 @ s2 @ s3 @ s4 @ s5, 0, err)
     \<and> section_of ''Indexes:'' indexFormat s1
     \<and> section_of ''Check constraints:'' checkFormat s2
     \<and> section_of ''Foreign-key constraints:'' foreignKeyFormat s3
     \<and> section_of ''Referenced by:'' referencedByFormat s4
     \<and> section_of ''Triggers:'' triggerFormat s5"
proof -
  obtain s1 e1 where 1: "describeTableIndexes w out sp tp = (out @ s1, e1)"
    and q1: "section_of ''Indexes:'' indexFormat s1"
    using describeTableIndexes_section by blast
  obtain s2 e2 where 2: "describeTableConstraints w (out @ s1) (Filter0\<lparr>Schema := sp, Parent := tp\<rparr>)
        checkFilter ''Check constraints:'' checkPrinter = ((out @ s1) @ s2, e2)"
    and q2: "section_of ''Check constraints:'' checkFormat s2"
    using describeTableConstraints_section[where printer=checkPrinter and fmt=checkFormat, OF checkPrinter_line] by blast
  obtain s3 e3 where 3: "describeTableConstraints w (out @ s1 @ s2)
        (Filter0\<lparr>Schema := sp, Parent := tp\<rparr>)
        foreignKeyFilter ''Foreign-key constraints:'' (foreignKeyPrinter w)
          = ((out @ s1 @ s2) @ s3, e3)"
    and q3: "section_of ''Foreign-key constraints:'' foreignKeyFormat s3"
    using describeTableConstraints_section[where printer="foreignKeyPrinter w" and fmt=foreignKeyFormat, OF foreignKeyPrinter_line] by blast
  obtain s4 e4 where 4: "describeTableConstraints w (out @ s1 @ s2 @ s3)
        (Filter0\<lparr>Schema := sp, Reference := tp\<rparr>)
        foreignKeyFilter ''Referenced by:'' (referencedByPrinter w)
          = ((out @ s1 @ s2 @ s3) @ s4, e4)"
    and q4: "section_of ''Referenced by:'' referencedByFormat s4"
    using describeTableConstraints_section[where printer="referencedByPrinter w" and fmt=referencedByFormat, OF referencedByPrinter_line] by blast
  obtain s5 e5 where 5: "describeTableTriggers w (out @ s1 @ s2 @ s3 @ s4) sp tp
          = ((out @ s1 @ s2 @ s3 @ s4) @ s5, e5)"
    and q5: "section_of ''Triggers:'' triggerFormat s5"
    using describeTableTriggers_section by blast
  have nil: "section_of l f []" for l f by (simp add: section_of_def)
  show ?thesis
  proof (cases e1)
    case (Some e)
    then have "tableDetailsSummary w sp tp out = (out @ s1 @ [] @ [] @ [] @ [], 0, Some e)"
      using 1 by (simp add: tableDetailsSummary_def)
    then show ?thesis using q1 nil by blast
  next
    case n1: None
    show ?thesis
    proof (cases e2)
      case (Some e)
      then have "tableDetailsSummary w sp tp out = (out @ s1 @ s2 @ [] @ [] @ [], 0, Some e)"
        using 1 2 n1 by (simp add: tableDetailsSummary_def)
      then show ?thesis using q1 q2 nil by blast
    next
      case n2: None
      show ?thesis
      proof (cases e3)
        case (Some e)
        then have "tableDetailsSummary w sp tp out = (out @ s1 @ s2 @ s3 @ [] @ [], 0, Some e)"
          using 1 2 3 n1 n2 by (simp add: tableDetailsSummary_def)
        then show ?thesis using q1 q2 q3 nil by blast
      next
        case n3: None
        have "tableDetailsSummary w sp tp out = (out @ s1 @ s2 @ s3 @ s4 @ s5, 0, e5)"
          using 1 2 3 4 5 n1 n2 n3 by (simp add: tableDetailsSummary_def split: option.splits)
        then show ?thesis using q1 q2 q3 q4 q5 by blast
      qed
    qed
  qed
qed

text \<open>
  C4. When the columns of a table are listed, the report of describeTableDetails is the
  column table followed by the summary, and the summary is made of five parts in this
  order: Indexes, Check constraints, Foreign-key constraints, Referenced by, Triggers.
  Each part is empty (the section is not produced) or is the label of its section
  followed by lines in the format of that section.
\<close>

theorem describeTableDetails_section_order:
  assumes "Columns (w_r w) = Some rd"
    and "rd (Filter0\<lparr>Schema := sp, Parent := tp, WithSystem := showSystem\<rparr>) = (Some rows, None)"
  shows "\<exists>params columns s1 s2 s3 s4 s5 err.
     describeTableDetails w typ sp tp verbose showSystem out
       = (out @ [EncodeAll params columns (map (describeTableDetails_scanValues verbose) rows)]
            @ s1 @ s2 @ s3 @ s4 @ s5, err)
     \<and> section_of ''Indexes:'' indexFormat s1
     \<and> section_of ''Check constraints:'' checkFormat s2
     \<and> section_of ''Foreign-key constraints:'' foreignKeyFormat s3
     \<and> section_of ''Referenced by:'' referencedByFormat s4
     \<and> section_of ''Triggers:'' triggerFormat s5"
proof -
  let ?params = "[(''title'', typ @ '' '' @ qualifiedIdentifier sp tp @ [CHR 0x0A])]"
  let ?columns = "[''Name'', ''Type'', ''Nullable'', ''Default'']
                  @ (if verbose
                     then [''Size'', ''Decimal Digits'', ''Radix'', ''Octet Length'']
                     else [])"
  let ?out = "out @ [EncodeAll ?params ?columns (map (describeTableDetails_scanValues verbose) rows)]"
  from tableDetailsSummary_sections[of w sp tp ?out]
  obtain s1 s2 s3 s4 s5 err where
    s: "tableDetailsSummary w sp tp ?out = (?out @ s1 @ s2 @ s3 @ s4 @ s5, 0, err)"
    and q: "section_of ''Indexes:'' indexFormat s1"
      "section_of ''Check constraints:'' checkFormat s2"
      "section_of ''Foreign-key constraints:'' foreignKeyFormat s3"
      "section_of ''Referenced by:'' referencedByFormat s4"
      "section_of ''Triggers:'' triggerFormat s5"
    by blast
  have "describeTableDetails w typ sp tp verbose showSystem out
          = (out @ [EncodeAll ?params ?columns
                      (map (describeTableDetails_scanValues verbose) rows)]
               @ s1 @ s2 @ s3 @ s4 @ s5, err)"
    using assms s by (simp add: describeTableDetails_def encodeWithSummary_def)
  then show ?thesis using q by blast
qed

lemmas summary_eval =
  describeTableIndexes_def describeTableIndexes_body_def getIndexColumns_def
  describeTableConstraints_def describeTableTriggers_def getConstraintColumns_def
  checkFilter_def checkPrinter_def foreignKeyFilter_def foreignKeyPrinter_def
  referencedByPrinter_def tableDetailsSummary_def forNext_foldE HasSuffix_def YES_def
  Filter0_def NewIngresWriter_def ordersReader_def noReader_def ordersConstraints_def
  ordersReferences_def newConstraint_def fkColumns_def Let_def

lemma ordersSummary:
  "tableDetailsSummary (NewIngresWriter ordersReader) ''public'' ''orders'' out =
     (out @
      [Fprintln ''Indexes:'',
       Fprintf indexFormat [''orders_pkey'', ''PRIMARY_KEY, '', ''UNIQUE, '', ''btree'', ''id''],
       Fprintln ''Check constraints:'',
       Fprintf checkFormat [''qty_positive'', ''CHECK'', ''qty > 0''],
       Fprintf checkFormat [''price_positive'', ''CHECK'', ''price > 0''],
       Fprintln ''Foreign-key constraints:'',
       Fprintf foreignKeyFormat [''orders_fk'', ''FOREIGN KEY'', ''order_id, region'',
         ''customers'', ''id, area'', ''NO ACTION'', ''CASCADE''],
       Fprintln ''Referenced by:'',
       Fprintf referencedByFormat [''items'', ''items_fk'', ''FOREIGN KEY'', ''order_id, region'',
         ''orders'', ''id, area'', ''NO ACTION'', ''CASCADE''],
       Fprintln ''Triggers:'',
       Fprintf triggerFormat [''audit'', ''AFTER INSERT'']], 0, None)"
  by (simp add: summary_eval)

theorem describeTableDetails_section_order_witness:
  "Columns (w_r (NewIngresWriter ordersReader)) = Some (\<lambda>flt. (Some ordersColumns, None))
   \<and> describeTableDetails (NewIngresWriter ordersReader) ''TABLE'' ''public'' ''orders''
         False False []
       = ([EncodeAll [(''title'', ''TABLE '' @ qualifiedIdentifier ''public'' ''orders'' @ [CHR 0x0A])]
             [''Name'', ''Type'', ''Nullable'', ''Default'']
             [[StrV ''id'', StrV ''integer'', StrV ''NO'', StrV []]],
           Fprintln ''Indexes:'',
           Fprintf indexFormat [''orders_pkey'', ''PRIMARY_KEY, '', ''UNIQUE, '', ''btree'', ''id''],
           Fprintln ''Check constraints:'',
           Fprintf checkFormat [''qty_positive'', ''CHECK'', ''qty > 0''],
           Fprintf checkFormat [''price_positive'', ''CHECK'', ''price > 0''],
           Fprintln ''Foreign-key constraints:'',
           Fprintf foreignKeyFormat [''orders_fk'', ''FOREIGN KEY'', ''order_id, region'',
             ''customers'', ''id, area'', ''NO ACTION'', ''CASCADE''],
           Fprintln ''Referenced by:'',
           Fprintf referencedByFormat [''items'', ''items_fk'', ''FOREIGN KEY'',
             ''order_id, region'', ''orders'', ''id, area'', ''NO ACTION'', ''CASCADE''],
           Fprintln ''Triggers:'',
           Fprintf triggerFormat [''audit'', ''AFTER INSERT'']], None)
   \<and> (\<exists>params columns s1 s2 s3 s4 s5 err.
         describeTableDetails (NewIngresWriter ordersReader) ''TABLE'' ''public'' ''orders''
             False False []
           = ([] @ [EncodeAll params columns
                      (map (describeTableDetails_scanValues False) ordersColumns)]
                @ s1 @ s2 @ s3 @ s4 @ s5, err)
         \<and> section_of ''Indexes:'' indexFormat s1
         \<and> section_of ''Check constraints:'' checkFormat s2
         \<and> section_of ''Foreign-key constraints:'' foreignKeyFormat s3
         \<and> section_of ''Referenced by:'' referencedByFormat s4
         \<and> section_of ''Triggers:'' triggerFormat s5)"
proof (intro conjI)
  let ?w = "NewIngresWriter ordersReader"
  show h1: "Columns (w_r ?w) = Some (\<lambda>flt. (Some ordersColumns, None))"
    by (simp add: NewIngresWriter_def ordersReader_def)
  have h2: "(\<lambda>flt. (Some ordersColumns, None))
              (Filter0\<lparr>Schema := ''public'', Parent := ''orders'', WithSystem := False\<rparr>)
            = (Some ordersColumns, None)"
    by simp
  show "describeTableDetails ?w ''TABLE'' ''public'' ''orders'' False False [] =
      ([EncodeAll [(''title'', ''TABLE '' @ qualifiedIdentifier ''public'' ''orders'' @ [CHR 0x0A])]
             [''Name'', ''Type'', ''Nullable'', ''Default'']
             [[StrV ''id'', StrV ''integer'', StrV ''NO'', StrV []]],
           Fprintln ''Indexes:'',
           Fprintf indexFormat [''orders_pkey'', ''PRIMARY_KEY, '', ''UNIQUE, '', ''btree'', ''id''],
           Fprintln ''Check constraints:'',
           Fprintf checkFormat [''qty_positive'', ''CHECK'', ''qty > 0''],
           Fprintf checkFormat [''price_positive'', ''CHECK'', ''price > 0''],
           Fprintln ''Foreign-key constraints:'',
           Fprintf foreignKeyFormat [''orders_fk'', ''FOREIGN KEY'', ''order_id, region'',
             ''customers'', ''id, area'', ''NO ACTION'', ''CASCADE''],
           Fprintln ''Referenced by:'',
           Fprintf referencedByFormat [''items'', ''items_fk'', ''FOREIGN KEY'',
             ''order_id, region'', ''orders'', ''id, area'', ''NO ACTION'', ''CASCADE''],
           Fprintln ''Triggers:'',
           Fprintf triggerFormat [''audit'', ''AFTER INSERT'']], None)"
    using h1
    by (simp add: describeTableDetails_def encodeWithSummary_def ordersSummary
        describeTableDetails_scanValues_def ordersColumns_def)
  show "\<exists>params columns s1 s2 s3 s4 s5 err.
         describeTableDetails ?w ''TABLE'' ''public'' ''orders'' False False []
           = ([] @ [EncodeAll params columns
                      (map (describeTableDetails_scanValues False) ordersColumns)]
                @ s1 @ s2 @ s3 @ s4 @ s5, err)
         \<and> section_of ''Indexes:'' indexFormat s1
         \<and> section_of ''Check constraints:'' checkFormat s2
         \<and> section_of ''Foreign-key constraints:'' foreignKeyFormat s3
         \<and> section_of ''Referenced by:'' referencedByFormat s4
         \<and> section_of ''Triggers:'' triggerFormat s5"
    by (rule describeTableDetails_section_order[OF h1 h2])
qed

text \<open>
  C1. The claim holds for the sections Indexes, Check constraints, Foreign-key
  constraints and Triggers (the lemmas below), but not for Referenced by. Here the query
  for the incoming foreign keys fails with an error that is not the sentinel:
  describeTableConstraints returns it, wrapped, and tableDetailsSummary nevertheless goes
  on to the Triggers section and returns no error.
\<close>

theorem tableDetailsSummary_drops_referenced_by_error:
  "describeTableConstraints (NewIngresWriter brokenReferencesReader) []
       (Filter0\<lparr>Schema := ''public'', Reference := ''orders''\<rparr>)
       foreignKeyFilter ''Referenced by:''
       (referencedByPrinter (NewIngresWriter brokenReferencesReader))
     = ([], Some (Errorf ''failed to list constraints: %w'' [] (Failure ''connection reset'')))
   \<and> tableDetailsSummary (NewIngresWriter brokenReferencesReader) ''public'' ''orders'' []
     = ([Fprintln ''Indexes:'',
         Fprintf indexFormat [''orders_pkey'', ''PRIMARY_KEY, '', ''UNIQUE, '', ''btree'', ''id''],
         Fprintln ''Check constraints:'',
         Fprintf checkFormat [''qty_positive'', ''CHECK'', ''qty > 0''],
         Fprintf checkFormat [''price_positive'', ''CHECK'', ''price > 0''],
         Fprintln ''Foreign-key constraints:'',
         Fprintf foreignKeyFormat [''orders_fk'', ''FOREIGN KEY'', ''order_id, region'',
           ''customers'', ''id, area'', ''NO ACTION'', ''CASCADE''],
         Fprintln ''Triggers:'',
         Fprintf triggerFormat [''audit'', ''AFTER INSERT'']], 0, None)"
  by (simp add: summary_eval brokenReferencesReader_def)

text \<open>The four other sections return a query error to the caller of the summary.\<close>

lemma tableDetailsSummary_indexes_error:
  "describeTableIndexes w out sp tp = (out', Some e)
   \<Longrightarrow> tableDetailsSummary w sp tp out = (out', 0, Some e)"
  by (simp add: tableDetailsSummary_def)

lemma tableDetailsSummary_check_error:
  assumes "describeTableIndexes w out sp tp = (out1, None)"
    and "describeTableConstraints w out1 (Filter0\<lparr>Schema := sp, Parent := tp\<rparr>)
           checkFilter ''Check constraints:'' checkPrinter = (out2, Some e)"
  shows "tableDetailsSummary w sp tp out = (out2, 0, Some e)"
  using assms by (simp add: tableDetailsSummary_def)

lemma tableDetailsSummary_foreign_key_error:
  assumes "describeTableIndexes w out sp tp = (out1, None)"
    and "describeTableConstraints w out1 (Filter0\<lparr>Schema := sp, Parent := tp\<rparr>)
           checkFilter ''Check constraints:'' checkPrinter = (out2, None)"
    and "describeTableConstraints w out2 (Filter0\<lparr>Schema := sp, Parent := tp\<rparr>)
           foreignKeyFilter ''Foreign-key constraints:'' (foreignKeyPrinter w) = (out3, Some e)"
  shows "tableDetailsSummary w sp tp out = (out3, 0, Some e)"
  using assms by (simp add: tableDetailsSummary_def)

text \<open>
  The error of the fourth section is dropped, whatever it is: the result of the summary
  is the result of the Triggers section that runs after it.
\<close>

lemma tableDetailsSummary_referenced_by_then_triggers:
  assumes "describeTableIndexes w out sp tp = (out1, None)"
    and "describeTableConstraints w out1 (Filter0\<lparr>Schema := sp, Parent := tp\<rparr>)
           checkFilter ''Check constraints:'' checkPrinter = (out2, None)"
    and "describeTableConstraints w out2 (Filter0\<lparr>Schema := sp, Parent := tp\<rparr>)
           foreignKeyFilter ''Foreign-key constraints:'' (foreignKeyPrinter w) = (out3, None)"
    and "describeTableConstraints w out3 (Filter0\<lparr>Schema := sp, Reference := tp\<rparr>)
           foreignKeyFilter ''Referenced by:'' (referencedByPrinter w) = (out4, err4)"
    and "describeTableTriggers w out4 sp tp = (out5, err5)"
  shows "tableDetailsSummary w sp tp out = (out5, 0, err5)"
  using assms by (cases err5) (simp_all add: tableDetailsSummary_def)

lemma section_query_error:
  assumes "hard_error err = Some e"
  shows "Indexes (w_r w) = Some rd \<Longrightarrow> rd (Filter0\<lparr>Schema := sp, Parent := tp\<rparr>) = (res, err)
           \<Longrightarrow> describeTableIndexes w out sp tp
               = (out, Some (Errorf ''failed to list indexes for table %s: %w'' [tp] e))"
    and "Triggers (w_r w) = Some rt \<Longrightarrow> rt (Filter0\<lparr>Schema := sp, Parent := tp\<rparr>) = (rest, err)
           \<Longrightarrow> describeTableTriggers w out sp tp
               = (out, Some (Errorf ''failed to list triggers for table %s: %w'' [tp] e))"
    and "Constraints (w_r w) = Some rc \<Longrightarrow> rc flt = (resc, err)
           \<Longrightarrow> describeTableConstraints w out flt postFilter label printer
               = (out, Some (Errorf ''failed to list constraints: %w'' [] e))"
  using assms
  by (simp_all add: describeTableIndexes_def describeTableTriggers_def
      describeTableConstraints_def)

lemma section_omitted:
  shows "Indexes (w_r w) = None \<Longrightarrow> describeTableIndexes w out sp tp = (out, None)"
    and "Indexes (w_r w) = Some rd
           \<Longrightarrow> rd (Filter0\<lparr>Schema := sp, Parent := tp\<rparr>) = (None, Some ErrNotSupported)
           \<Longrightarrow> describeTableIndexes w out sp tp = (out, None)"
    and "Triggers (w_r w) = None \<Longrightarrow> describeTableTriggers w out sp tp = (out, None)"
    and "Triggers (w_r w) = Some rt
           \<Longrightarrow> rt (Filter0\<lparr>Schema := sp, Parent := tp\<rparr>) = (None, Some ErrNotSupported)
           \<Longrightarrow> describeTableTriggers w out sp tp = (out, None)"
    and "Constraints (w_r w) = None
           \<Longrightarrow> describeTableConstraints w out flt postFilter label printer = (out, None)"
    and "Constraints (w_r w) = Some rc \<Longrightarrow> rc flt = (None, Some ErrNotSupported)
           \<Longrightarrow> describeTableConstraints w out flt postFilter label printer = (out, None)"
  by (simp_all add: describeTableIndexes_def describeTableTriggers_def
      describeTableConstraints_def)

subsection \<open>The filter of the check constraints\<close>

lemma foldE_checkPrinter:
  "foldE (\<lambda>c out. checkPrinter out c) cs out
     = (out @ map (\<lambda>c. Fprintf checkFormat [c_Name c, c_Type c, c_CheckClause c]) cs, None)"
  by (induction cs arbitrary: out) (simp_all add: checkPrinter_def)

text \<open>
  C5, as amended. When the ConstraintReader is present and its query succeeds, the
  "Check constraints:" section consists of its label and one line for each returned row
  whose type is CHECK, whose check clause is not empty and whose check clause does not
  end with \<open> IS NOT NULL\<close>, in the order of the rows; without such a row the section
  is not produced.
\<close>

theorem check_constraints_section_rows:
  assumes "Constraints (w_r w) = Some rd"
    and "rd flt = (Some rows, None)"
  shows "describeTableConstraints w out flt checkFilter ''Check constraints:'' checkPrinter
     = (out @ (let shown = filter (\<lambda>c. c_Type c = ''CHECK'' \<and> c_CheckClause c \<noteq> []
                                    \<and> \<not> HasSuffix (c_CheckClause c) '' IS NOT NULL'') rows
               in if shown = [] then []
                  else Fprintln ''Check constraints:''
                       # map (\<lambda>c. Fprintf checkFormat [c_Name c, c_Type c, c_CheckClause c]) shown),
        None)"
proof -
  have f: "checkFilter = (\<lambda>c. c_Type c = ''CHECK'' \<and> c_CheckClause c \<noteq> []
                                    \<and> \<not> HasSuffix (c_CheckClause c) '' IS NOT NULL'')"
    by (rule ext) (simp add: checkFilter_def)
  show ?thesis
    using assms
    by (simp add: describeTableConstraints_def Let_def forNext_foldE foldE_checkPrinter
        flip: f)
qed

theorem check_constraints_section_rows_witness:
  "Constraints (w_r (NewIngresWriter ordersReader))
     = Some (\<lambda>flt. if Reference flt = [] then (Some ordersConstraints, None)
                    else (Some ordersReferences, None))
   \<and> describeTableConstraints (NewIngresWriter ordersReader) []
         (Filter0\<lparr>Schema := ''public'', Parent := ''orders''\<rparr>)
         checkFilter ''Check constraints:'' checkPrinter
       = ([Fprintln ''Check constraints:'',
           Fprintf checkFormat [''qty_positive'', ''CHECK'', ''qty > 0''],
           Fprintf checkFormat [''price_positive'', ''CHECK'', ''price > 0'']], None)"
proof -
  let ?rd = "\<lambda>flt. if Reference flt = [] then (Some ordersConstraints, None)
                    else (Some ordersReferences, None)"
  have h1: "Constraints (w_r (NewIngresWriter ordersReader)) = Some ?rd"
    by (simp add: NewIngresWriter_def ordersReader_def)
  have h2: "?rd (Filter0\<lparr>Schema := ''public'', Parent := ''orders''\<rparr>)
              = (Some ordersConstraints, None)"
    by (simp add: Filter0_def)
  show ?thesis
    using check_constraints_section_rows[OF h1 h2, of "[]"] h1
    by (simp add: ordersConstraints_def newConstraint_def HasSuffix_def Let_def)
qed

text \<open>
  A check constraint with two conditions, the second of which is a NOT NULL test, is a
  CHECK with a non-empty clause that is not a bare NOT-NULL check, and the section
  leaves it out (here it is the only row, so nothing is written).
\<close>

theorem check_constraints_compound_counterexample:
  "c_Type compoundCheck = ''CHECK''
   \<and> c_CheckClause compoundCheck = ''qty > 0 AND note IS NOT NULL''
   \<and> c_CheckClause compoundCheck \<noteq> []
   \<and> \<not> bare_not_null_check (c_CheckClause compoundCheck)
   \<and> describeTableConstraints (NewIngresWriter compoundCheckReader) []
         (Filter0\<lparr>Schema := ''public'', Parent := ''orders''\<rparr>)
         checkFilter ''Check constraints:'' checkPrinter
       = ([], None)"
  by (simp add: compoundCheck_def newConstraint_def bare_not_null_check_def HasSuffix_def
      describeTableConstraints_def NewIngresWriter_def compoundCheckReader_def noReader_def
      checkFilter_def Let_def)

lemma bare_not_null_check_example: "bare_not_null_check ''id IS NOT NULL''"
  by (simp add: bare_not_null_check_def HasSuffix_def)

subsection \<open>DescribeTableDetails\<close>

lemma foldE_found:
  assumes "\<And>x out n. \<exists>ws e. body x (out, n) = ((out @ ws, if e = None then Suc n else n), e)
                          \<and> m \<notin> set ws"
  shows "\<exists>ws e n'. foldE body xs (out, n) = ((out @ ws, n'), e) \<and> m \<notin> set ws
           \<and> (e = None \<longrightarrow> n' = n + length xs)"
proof (induction xs arbitrary: out n)
  case Nil
  show ?case by simp
next
  case (Cons x xs)
  from assms[of x out n] obtain ws e where
    b: "body x (out, n) = ((out @ ws, if e = None then Suc n else n), e)" and m: "m \<notin> set ws"
    by blast
  show ?case
  proof (cases e)
    case (Some err)
    then have "foldE body (x # xs) (out, n) = ((out @ ws, n), Some err)"
      using b by simp
    then show ?thesis using m by blast
  next
    case None
    from Cons.IH[of "out @ ws" "Suc n"] obtain ws' e' n' where
      r: "foldE body xs (out @ ws, Suc n) = (((out @ ws) @ ws', n'), e')"
      and m': "m \<notin> set ws'" and c: "e' = None \<longrightarrow> n' = Suc n + length xs"
      by blast
    have "foldE body (x # xs) (out, n) = ((out @ (ws @ ws'), n'), e')"
      using b None r by simp
    moreover have "m \<notin> set (ws @ ws')" using m m' by simp
    moreover have "e' = None \<longrightarrow> n' = n + length (x # xs)" using c by simp
    ultimately show ?thesis by blast
  qed
qed

lemma section_not_message:
  assumes "section_of label fmt s" and "fmt \<noteq> RelationNotFound"
  shows "Fprintf RelationNotFound args \<notin> set s"
proof (cases s)
  case Nil
  then show ?thesis by simp
next
  case (Cons x ls)
  then have "x = Fprintln label" and l: "list_all (has_format fmt) ls"
    using assms(1) by (simp_all add: section_of_def)
  moreover have "Fprintf RelationNotFound args \<notin> set ls"
  proof
    assume "Fprintf RelationNotFound args \<in> set ls"
    then have "has_format fmt (Fprintf RelationNotFound args)"
      using l by (simp add: list_all_iff)
    then show False using assms(2) by (simp add: has_format_def)
  qed
  ultimately show ?thesis using Cons by simp
qed

lemma formats_not_message:
  "indexFormat \<noteq> RelationNotFound" "checkFormat \<noteq> RelationNotFound"
  "foreignKeyFormat \<noteq> RelationNotFound" "referencedByFormat \<noteq> RelationNotFound"
  "triggerFormat \<noteq> RelationNotFound"
  by (simp_all add: indexFormat_def checkFormat_def foreignKeyFormat_def referencedByFormat_def
      triggerFormat_def RelationNotFound_def)

lemma describeTableDetails_writes:
  "\<exists>ws e. describeTableDetails w typ sp tp verbose showSystem out = (out @ ws, e)
          \<and> Fprintf RelationNotFound args \<notin> set ws"
proof -
  have unchanged: "\<exists>ws e'. (out, e) = (out @ ws, e') \<and> Fprintf RelationNotFound args \<notin> set ws"
    for e :: "error option"
    by (rule exI[of _ "[]"]) simp
  show ?thesis
  proof (cases "\<exists>rd rows. Columns (w_r w) = Some rd
      \<and> rd (Filter0\<lparr>Schema := sp, Parent := tp, WithSystem := showSystem\<rparr>) = (Some rows, None)")
    case True
    then obtain rd rows where h: "Columns (w_r w) = Some rd"
      "rd (Filter0\<lparr>Schema := sp, Parent := tp, WithSystem := showSystem\<rparr>) = (Some rows, None)"
      by blast
    let ?enc = "EncodeAll [(''title'', typ @ '' '' @ qualifiedIdentifier sp tp @ [CHR 0x0A])]
                 ([''Name'', ''Type'', ''Nullable'', ''Default'']
                  @ (if verbose
                     then [''Size'', ''Decimal Digits'', ''Radix'', ''Octet Length'']
                     else []))
                 (map (describeTableDetails_scanValues verbose) rows)"
    from tableDetailsSummary_sections[of w sp tp "out @ [?enc]"]
    obtain s1 s2 s3 s4 s5 err where
      s: "tableDetailsSummary w sp tp (out @ [?enc])
            = ((out @ [?enc]) @ s1 @ s2 @ s3 @ s4 @ s5, 0, err)"
      and q: "section_of ''Indexes:'' indexFormat s1"
        "section_of ''Check constraints:'' checkFormat s2"
        "section_of ''Foreign-key constraints:'' foreignKeyFormat s3"
        "section_of ''Referenced by:'' referencedByFormat s4"
        "section_of ''Triggers:'' triggerFormat s5"
      by blast
    have "describeTableDetails w typ sp tp verbose showSystem out
            = (out @ (?enc # s1 @ s2 @ s3 @ s4 @ s5), err)"
      using h s by (simp add: describeTableDetails_def encodeWithSummary_def)
    moreover have "Fprintf RelationNotFound args \<notin> set (?enc # s1 @ s2 @ s3 @ s4 @ s5)"
      using q section_not_message formats_not_message by simp
    ultimately show ?thesis by blast
  next
    case False
    then have "\<exists>e. describeTableDetails w typ sp tp verbose showSystem out = (out, e)"
      by (auto simp: describeTableDetails_def split: option.splits prod.splits)
    then show ?thesis using unchanged by metis
  qed
qed

lemma describeIndex_writes:
  "\<exists>ws e. describeIndex w i out = (out @ ws, e) \<and> Fprintf RelationNotFound args \<notin> set ws"
proof -
  have unchanged: "\<exists>ws e'. (out, e) = (out @ ws, e') \<and> Fprintf RelationNotFound args \<notin> set ws"
    for e :: "error option"
    by (rule exI[of _ "[]"]) simp
  have f: "''%s%s, for table %s'' \<noteq> RelationNotFound"
    by (simp add: RelationNotFound_def)
  have two: "\<exists>ws e'. (out @ [a, Fprintf ''%s%s, for table %s'' xs], e) = (out @ ws, e')
      \<and> Fprintf RelationNotFound args \<notin> set ws" if "a \<noteq> Fprintf RelationNotFound args"
    for a xs and e :: "error option"
    using that f by (intro exI[of _ "[a, Fprintf ''%s%s, for table %s'' xs]"] exI[of _ e]) simp
  show ?thesis
    unfolding describeIndex_def encodeWithSummary_def
    using unchanged two
    by (auto split: option.splits prod.splits)
qed


lemma remaining_system_filter:
  "remaining (if \<not> showSystem then SetFilter p (NewResultSet rows) else NewResultSet rows)
     = filter (\<lambda>x. showSystem \<or> p x) rows"
  by simp

lemma tables_block:
  "\<exists>ws n' e. DescribeTableDetails_tables w sp tp verbose showSystem (out, n) = ((out @ ws, n'), e)
      \<and> Fprintf RelationNotFound args \<notin> set ws
      \<and> (e = None \<longrightarrow> n' = n + matched_tables w sp tp showSystem)"
proof (cases "\<exists>tr cr rows. Tables (w_r w) = Some tr \<and> Columns (w_r w) = Some cr
    \<and> tr (Filter0\<lparr>Schema := sp, Name := tp, WithSystem := showSystem\<rparr>) = (Some rows, None)")
  case True
  then obtain tr cr rows where h: "Tables (w_r w) = Some tr" "Columns (w_r w) = Some cr"
    "tr (Filter0\<lparr>Schema := sp, Name := tp, WithSystem := showSystem\<rparr>) = (Some rows, None)"
    by blast
  let ?body = "\<lambda>t (out, found).
                    case describeTableDetails w (t_Type t) (t_Schema t) (t_Name t)
                           verbose showSystem out of
                      (out, Some err) \<Rightarrow>
                        ((out, found),
                         Some (Errorf ''failed to describe %s %s.%s: %w''
                                 [t_Type t, t_Schema t, t_Name t] err))
                    | (out, None) \<Rightarrow> ((out, Suc found), None)"
  have body: "\<exists>ws e. ?body x (out, n) = ((out @ ws, if e = None then Suc n else n), e)
                          \<and> Fprintf RelationNotFound args \<notin> set ws" for x out n
  proof -
    from describeTableDetails_writes[of w "t_Type x" "t_Schema x" "t_Name x" verbose showSystem out args]
    obtain ws e where d: "describeTableDetails w (t_Type x) (t_Schema x) (t_Name x)
        verbose showSystem out = (out @ ws, e)" and m: "Fprintf RelationNotFound args \<notin> set ws"
      by blast
    show ?thesis
    proof (cases e)
      case None
      then have "?body x (out, n) = ((out @ ws, if (None::error option) = None then Suc n else n), None)"
        using d by simp
      then show ?thesis using m by blast
    next
      case (Some err)
      then have "?body x (out, n) = ((out @ ws,
          if Some (Errorf ''failed to describe %s %s.%s: %w'' [t_Type x, t_Schema x, t_Name x] err)
             = None then Suc n else n),
          Some (Errorf ''failed to describe %s %s.%s: %w'' [t_Type x, t_Schema x, t_Name x] err))"
        using d by simp
      then show ?thesis using m by blast
    qed
  qed
  let ?rows = "filter (\<lambda>t. showSystem \<or> t_Schema t \<notin> systemSchemas w) rows"
  from foldE_found[of ?body "Fprintf RelationNotFound args" ?rows out n, OF body]
  obtain ws e n' where
    f: "foldE ?body ?rows (out, n) = ((out @ ws, n'), e)"
    and m: "Fprintf RelationNotFound args \<notin> set ws"
    and c: "e = None \<longrightarrow> n' = n + length ?rows"
    by blast
  have "DescribeTableDetails_tables w sp tp verbose showSystem (out, n)
          = forNext (if \<not> showSystem
                     then SetFilter (\<lambda>t. t_Schema t \<notin> systemSchemas w) (NewResultSet rows)
                     else NewResultSet rows) ?body (out, n)"
    by (simp only: DescribeTableDetails_tables_def h option.case prod.case)
  also have "\<dots> = foldE ?body ?rows (out, n)"
    by (simp only: forNext_foldE remaining_system_filter)
  finally have "DescribeTableDetails_tables w sp tp verbose showSystem (out, n)
                  = ((out @ ws, n'), e)"
    using f by simp
  moreover have "matched_tables w sp tp showSystem = length ?rows"
    using h by (simp add: matched_tables_def)
  ultimately show ?thesis using m c by auto
next
  case False
  then have "(\<exists>e. e \<noteq> None \<and> DescribeTableDetails_tables w sp tp verbose showSystem (out, n)
                 = ((out, n), e))
           \<or> (DescribeTableDetails_tables w sp tp verbose showSystem (out, n) = ((out, n), None)
                 \<and> matched_tables w sp tp showSystem = 0)"
    by (auto simp: DescribeTableDetails_tables_def matched_tables_def
        split: option.splits prod.splits)
  then show ?thesis
    by (intro exI[of _ "[]"]) auto
qed


lemma describeSequences_writes:
  "\<exists>ws k e. describeSequences w sp tp verbose showSystem out = (out @ ws, k, e)
      \<and> Fprintf RelationNotFound args \<notin> set ws
      \<and> (e = None \<longrightarrow> k = matched_sequences w sp tp showSystem)"
proof (cases "\<exists>sr rows err. Sequences (w_r w) = Some sr
    \<and> sr (Filter0\<lparr>Schema := sp, Name := tp, WithSystem := showSystem\<rparr>) = (Some rows, err)
    \<and> hard_error err = None")
  case True
  then obtain sr rows err where h: "Sequences (w_r w) = Some sr"
    "sr (Filter0\<lparr>Schema := sp, Name := tp, WithSystem := showSystem\<rparr>) = (Some rows, err)"
    "hard_error err = None"
    by blast
  let ?body = "\<lambda>s (out, found).
                 ((out @ [EncodeAllSequences
                            [(''footer'', ''off''),
                             (''title'', ''Sequence '' @ [CHR 0x22] @ s_Schema s @ ''.''
                                @ s_Name s @ [CHR 0x22, CHR 0x0A])] [s]],
                   Suc found), None :: error option)"
  have body: "\<exists>ws e. ?body x (out, n) = ((out @ ws, if e = None then Suc n else n), e)
                          \<and> Fprintf RelationNotFound args \<notin> set ws" for x out and n :: nat
    by (intro exI[of _ "[EncodeAllSequences
                            [(''footer'', ''off''),
                             (''title'', ''Sequence '' @ [CHR 0x22] @ s_Schema x @ ''.''
                                @ s_Name x @ [CHR 0x22, CHR 0x0A])] [x]]"] exI[of _ None]) simp
  from foldE_found[of ?body "Fprintf RelationNotFound args" rows out 0, OF body]
  obtain ws e n' where
    f: "foldE ?body rows (out, 0) = ((out @ ws, n'), e)"
    and m: "Fprintf RelationNotFound args \<notin> set ws"
    and c: "e = None \<longrightarrow> n' = 0 + length rows"
    by blast
  have e: "e = None"
  proof -
    have "snd (foldE ?body xs st) = None" for xs st
      by (induction xs arbitrary: st) (auto split: prod.splits)
    from this[of rows "(out, 0)"] show ?thesis using f by simp
  qed
  have "describeSequences w sp tp verbose showSystem out = (out @ ws, n', None)"
    using h f by (simp add: describeSequences_def forNext_foldE)
  moreover have "matched_sequences w sp tp showSystem = length rows"
    using h by (simp add: matched_sequences_def)
  ultimately show ?thesis using m c e by auto
next
  case False
  then have "(\<exists>k e. e \<noteq> None \<and> describeSequences w sp tp verbose showSystem out = (out, k, e))
           \<or> (describeSequences w sp tp verbose showSystem out = (out, 0, None)
                 \<and> matched_sequences w sp tp showSystem = 0)"
    by (auto simp: describeSequences_def matched_sequences_def
        split: option.splits prod.splits)
  then show ?thesis
    by (intro exI[of _ "[]"]) auto
qed


lemma sequences_block:
  "\<exists>ws n' e. DescribeTableDetails_sequences w sp tp verbose showSystem (out, n)
        = ((out @ ws, n'), e)
      \<and> Fprintf RelationNotFound args \<notin> set ws
      \<and> (e = None \<longrightarrow> n' = n + matched_sequences w sp tp showSystem)"
proof (cases "Sequences (w_r w)")
  case None
  then have "DescribeTableDetails_sequences w sp tp verbose showSystem (out, n)
               = ((out @ [], n), None)"
    "matched_sequences w sp tp showSystem = 0"
    by (simp_all add: DescribeTableDetails_sequences_def matched_sequences_def)
  then show ?thesis by (intro exI[of _ "[]"] exI[of _ n] exI[of _ None]) simp
next
  case (Some sr)
  from describeSequences_writes[of w sp tp verbose showSystem out args]
  obtain ws k e where d: "describeSequences w sp tp verbose showSystem out = (out @ ws, k, e)"
    and m: "Fprintf RelationNotFound args \<notin> set ws"
    and c: "e = None \<longrightarrow> k = matched_sequences w sp tp showSystem"
    by blast
  show ?thesis
  proof (cases e)
    case None
    then have "DescribeTableDetails_sequences w sp tp verbose showSystem (out, n)
                 = ((out @ ws, n + k), None)"
      using Some d by (simp add: DescribeTableDetails_sequences_def)
    then show ?thesis using m c None by auto
  next
    case (Some err)
    then have "DescribeTableDetails_sequences w sp tp verbose showSystem (out, n)
                 = ((out @ ws, n), Some (Errorf ''failed to describe sequences: %w'' [] err))"
      using \<open>Sequences (w_r w) = Some sr\<close> d by (simp add: DescribeTableDetails_sequences_def)
    then show ?thesis using m by auto
  qed
qed

lemma indexes_block:
  "\<exists>ws n' e. DescribeTableDetails_indexes w sp tp verbose showSystem (out, n) = ((out @ ws, n'), e)
      \<and> Fprintf RelationNotFound args \<notin> set ws
      \<and> (e = None \<longrightarrow> n' = n + matched_indexes w sp tp showSystem)"
proof (cases "\<exists>ir icr rows err. Indexes (w_r w) = Some ir \<and> IndexColumns (w_r w) = Some icr
    \<and> ir (Filter0\<lparr>Schema := sp, Name := tp, WithSystem := showSystem\<rparr>) = (Some rows, err)
    \<and> hard_error err = None")
  case True
  then obtain ir icr rows err where h: "Indexes (w_r w) = Some ir" "IndexColumns (w_r w) = Some icr"
    "ir (Filter0\<lparr>Schema := sp, Name := tp, WithSystem := showSystem\<rparr>) = (Some rows, err)"
    "hard_error err = None"
    by blast
  let ?body = "\<lambda>i (out, found).
                 case describeIndex w i out of
                   (out, Some err) \<Rightarrow>
                     ((out, found),
                      Some (Errorf ''failed to describe index %s from table %s.%s: %w''
                              [i_Name i, i_Schema i, i_Table i] err))
                 | (out, None) \<Rightarrow> ((out, Suc found), None)"
  have body: "\<exists>ws e. ?body x (out, n) = ((out @ ws, if e = None then Suc n else n), e)
                          \<and> Fprintf RelationNotFound args \<notin> set ws" for x out n
  proof -
    from describeIndex_writes[of w x out args]
    obtain ws e where d: "describeIndex w x out = (out @ ws, e)"
      and m: "Fprintf RelationNotFound args \<notin> set ws"
      by blast
    show ?thesis
    proof (cases e)
      case None
      then have "?body x (out, n)
          = ((out @ ws, if (None::error option) = None then Suc n else n), None)"
        using d by simp
      then show ?thesis using m by blast
    next
      case (Some err)
      then have "?body x (out, n) = ((out @ ws,
          if Some (Errorf ''failed to describe index %s from table %s.%s: %w''
                     [i_Name x, i_Schema x, i_Table x] err) = None then Suc n else n),
          Some (Errorf ''failed to describe index %s from table %s.%s: %w''
                  [i_Name x, i_Schema x, i_Table x] err))"
        using d by simp
      then show ?thesis using m by blast
    qed
  qed
  let ?rows = "filter (\<lambda>i. showSystem \<or> i_Schema i \<notin> systemSchemas w) rows"
  from foldE_found[of ?body "Fprintf RelationNotFound args" ?rows out n, OF body]
  obtain ws e n' where
    f: "foldE ?body ?rows (out, n) = ((out @ ws, n'), e)"
    and m: "Fprintf RelationNotFound args \<notin> set ws"
    and c: "e = None \<longrightarrow> n' = n + length ?rows"
    by blast
  have "DescribeTableDetails_indexes w sp tp verbose showSystem (out, n)
          = forNext (if \<not> showSystem
                     then SetFilter (\<lambda>i. i_Schema i \<notin> systemSchemas w) (NewResultSet rows)
                     else NewResultSet rows) ?body (out, n)"
    by (simp only: DescribeTableDetails_indexes_def h option.case prod.case)
  also have "\<dots> = foldE ?body ?rows (out, n)"
    by (simp only: forNext_foldE remaining_system_filter)
  finally have "DescribeTableDetails_indexes w sp tp verbose showSystem (out, n)
                  = ((out @ ws, n'), e)"
    using f by simp
  moreover have "matched_indexes w sp tp showSystem = length ?rows"
    using h by (simp add: matched_indexes_def)
  ultimately show ?thesis using m c by auto
next
  case False
  then have "(\<exists>e. e \<noteq> None \<and> DescribeTableDetails_indexes w sp tp verbose showSystem (out, n)
                 = ((out, n), e))
           \<or> (DescribeTableDetails_indexes w sp tp verbose showSystem (out, n) = ((out, n), None)
                 \<and> matched_indexes w sp tp showSystem = 0)"
    by (auto simp: DescribeTableDetails_indexes_def matched_indexes_def
        split: option.splits prod.splits)
  then show ?thesis
    by (intro exI[of _ "[]"]) auto
qed

text \<open>
  C8. DescribeTableDetails appends to the output; among what it appends, the "relation
  not found" message for the pattern occurs once when it returns no error and the
  number of matched tables plus matched sequences plus matched indexes is 0, and does
  not occur otherwise. (On a run without error the variable \<open>found\<close> holds that sum
  after the three blocks, by the lemmas above.)
\<close>

theorem DescribeTableDetails_relation_not_found:
  assumes "fst (parsePattern pattern) = (sp, tp)"
  shows "\<exists>ws err. DescribeTableDetails w pattern verbose showSystem out = (out @ ws, err)
           \<and> count_list ws (Fprintf RelationNotFound [pattern])
               = (if err = None
                     \<and> matched_tables w sp tp showSystem + matched_sequences w sp tp showSystem
                        + matched_indexes w sp tp showSystem = 0
                  then 1 else 0)"
proof -
  let ?m = "Fprintf RelationNotFound [pattern]"
  have p: "parsePattern pattern = ((sp, tp), None)"
    using assms parsePattern_no_error[of pattern] by (cases "parsePattern pattern") simp
  obtain w1 n1 e1 where
    1: "DescribeTableDetails_tables w sp tp verbose showSystem (out, 0) = ((out @ w1, n1), e1)"
    and m1: "?m \<notin> set w1" and c1: "e1 = None \<longrightarrow> n1 = 0 + matched_tables w sp tp showSystem"
    using tables_block[of w sp tp verbose showSystem out 0 "[pattern]"] by blast
  obtain w2 n2 e2 where
    2: "DescribeTableDetails_sequences w sp tp verbose showSystem (out @ w1, n1)
          = (((out @ w1) @ w2, n2), e2)"
    and m2: "?m \<notin> set w2" and c2: "e2 = None \<longrightarrow> n2 = n1 + matched_sequences w sp tp showSystem"
    using sequences_block[of w sp tp verbose showSystem "out @ w1" n1 "[pattern]"] by blast
  obtain w3 n3 e3 where
    3: "DescribeTableDetails_indexes w sp tp verbose showSystem (out @ w1 @ w2, n2)
          = (((out @ w1 @ w2) @ w3, n3), e3)"
    and m3: "?m \<notin> set w3" and c3: "e3 = None \<longrightarrow> n3 = n2 + matched_indexes w sp tp showSystem"
    using indexes_block[of w sp tp verbose showSystem "out @ w1 @ w2" n2 "[pattern]"] by blast
  have z: "count_list xs ?m = 0" if "?m \<notin> set xs" for xs
    using that by (simp add: count_list_0_iff)
  show ?thesis
  proof (cases e1)
    case (Some e)
    then have "DescribeTableDetails w pattern verbose showSystem out = (out @ w1, Some e)"
      using p 1 by (simp add: DescribeTableDetails_def)
    then show ?thesis using z[OF m1] by auto
  next
    case n1: None
    show ?thesis
    proof (cases e2)
      case (Some e)
      then have "DescribeTableDetails w pattern verbose showSystem out = (out @ (w1 @ w2), Some e)"
        using p 1 2 n1 by (simp add: DescribeTableDetails_def)
      moreover have "count_list (w1 @ w2) ?m = 0" using m1 m2 by (simp add: z)
      ultimately show ?thesis by auto
    next
      case n2: None
      show ?thesis
      proof (cases e3)
        case (Some e)
        then have "DescribeTableDetails w pattern verbose showSystem out
                     = (out @ (w1 @ w2 @ w3), Some e)"
          using p 1 2 3 n1 n2 by (simp add: DescribeTableDetails_def)
        moreover have "count_list (w1 @ w2 @ w3) ?m = 0" using m1 m2 m3 by (simp add: z)
        ultimately show ?thesis by auto
      next
        case n3: None
        have sum: "n3 = matched_tables w sp tp showSystem + matched_sequences w sp tp showSystem
                          + matched_indexes w sp tp showSystem"
          using c1 c2 c3 n1 n2 n3 by simp
        have body: "count_list (w1 @ w2 @ w3) ?m = 0" using m1 m2 m3 by (simp add: z)
        show ?thesis
        proof (cases "n3 = 0")
          case True
          then have "DescribeTableDetails w pattern verbose showSystem out
                       = (out @ (w1 @ w2 @ w3 @ [?m, Fprintln []]), None)"
            using p 1 2 3 n1 n2 n3 by (simp add: DescribeTableDetails_def)
          moreover have "count_list (w1 @ w2 @ w3 @ [?m, Fprintln []]) ?m = 1"
            using m1 m2 m3 by (simp add: z)
          ultimately show ?thesis using True sum by auto
        next
          case False
          then have "DescribeTableDetails w pattern verbose showSystem out
                       = (out @ (w1 @ w2 @ w3), None)"
            using p 1 2 3 n1 n2 n3 by (simp add: DescribeTableDetails_def)
          then show ?thesis using body False sum by auto
        qed
      qed
    qed
  qed
qed


theorem DescribeTableDetails_relation_not_found_witness:
  "fst (parsePattern ''tab*'') = ([], ''tab%'')
   \<and> matched_tables (NewIngresWriter systemTableReader) [] ''tab%'' False
       + matched_sequences (NewIngresWriter systemTableReader) [] ''tab%'' False
       + matched_indexes (NewIngresWriter systemTableReader) [] ''tab%'' False = 0
   \<and> DescribeTableDetails (NewIngresWriter systemTableReader) ''tab*'' False False []
       = ([Fprintf RelationNotFound [''tab*''], Fprintln []], None)
   \<and> fst (parsePattern ''public.orders'') = (''public'', ''orders'')
   \<and> matched_tables (NewIngresWriter ordersTableReader) ''public'' ''orders'' False
       + matched_sequences (NewIngresWriter ordersTableReader) ''public'' ''orders'' False
       + matched_indexes (NewIngresWriter ordersTableReader) ''public'' ''orders'' False = 1
   \<and> (\<exists>ws. DescribeTableDetails (NewIngresWriter ordersTableReader) ''public.orders''
               False False [] = (ws, None)
           \<and> count_list ws (Fprintf RelationNotFound [''public.orders'']) = 0)"
proof -
  let ?w = "NewIngresWriter systemTableReader"
  let ?v = "NewIngresWriter ordersTableReader"
  have h: "fst (parsePattern ''tab*'') = ([], ''tab%'')"
    by (simp add: parsePattern_def ContainsRune_def ReplaceAll_single)
  have s0: "matched_tables ?w [] ''tab%'' False + matched_sequences ?w [] ''tab%'' False
              + matched_indexes ?w [] ''tab%'' False = 0"
    by (simp add: matched_tables_def matched_sequences_def matched_indexes_def
        NewIngresWriter_def systemTableReader_def noReader_def)
  from DescribeTableDetails_relation_not_found[OF h, of ?w False False "[]"] s0
  obtain ws err where
    d: "DescribeTableDetails ?w ''tab*'' False False [] = ([] @ ws, err)"
    and c: "count_list ws (Fprintf RelationNotFound [''tab*'']) = (if err = None then 1 else 0)"
    by auto
  have e: "DescribeTableDetails ?w ''tab*'' False False []
             = ([Fprintf RelationNotFound [''tab*''], Fprintln []], None)"
    using h
    by (simp add: DescribeTableDetails_def DescribeTableDetails_tables_def
        DescribeTableDetails_sequences_def DescribeTableDetails_indexes_def
        NewIngresWriter_def systemTableReader_def noReader_def parsePattern_def
        ContainsRune_def ReplaceAll_single)
  have g: "fst (parsePattern ''public.orders'') = (''public'', ''orders'')"
    by (simp add: parsePattern_def ContainsRune_def ReplaceAll_single SplitN_first_char)
  have s1: "matched_tables ?v ''public'' ''orders'' False
              + matched_sequences ?v ''public'' ''orders'' False
              + matched_indexes ?v ''public'' ''orders'' False = 1"
    by (simp add: matched_tables_def matched_sequences_def matched_indexes_def
        NewIngresWriter_def ordersTableReader_def ordersReader_def noReader_def ordersTable_def)
  from DescribeTableDetails_relation_not_found[OF g, of ?v False False "[]"] s1
  obtain ws' err' where
    d': "DescribeTableDetails ?v ''public.orders'' False False [] = ([] @ ws', err')"
    and c': "count_list ws' (Fprintf RelationNotFound [''public.orders'']) = 0"
    by auto
  have "snd (DescribeTableDetails ?v ''public.orders'' False False []) = None"
    using g
    by (simp add: DescribeTableDetails_def DescribeTableDetails_tables_def
        DescribeTableDetails_sequences_def DescribeTableDetails_indexes_def
        describeTableDetails_def encodeWithSummary_def summary_eval
        ordersTableReader_def ordersTable_def parsePattern_def
        ContainsRune_def ReplaceAll_single SplitN_first_char foldE.simps
        split: prod.splits)
  then have "err' = None" using d' by simp
  then show ?thesis using h s0 e g s1 d' c' by simp
qed

subsection \<open>DescribeFunctions\<close>

lemma foldE_getFunctionColumns_body:
  "foldE getFunctionColumns_body cols args
     = (args @ map argFragment (filter (\<lambda>c. fc_OrdinalPosition c \<noteq> 0) cols), None)"
  by (induction cols arbitrary: args)
    (auto simp: getFunctionColumns_body_def argFragment_def Let_def)

lemma getFunctionColumns_ok:
  assumes "FunctionColumns (w_r w) = Some fc"
    and "fc (functionColumnsQuery f) = (Some cols, None)"
  shows "getFunctionColumns w (f_Catalog f) (f_Schema f) (f_SpecificName f) qs
           = ((functionArgTypes fc f, None), qs @ [functionColumnsQuery f])"
  using assms
  by (simp add: getFunctionColumns_def functionArgTypes_def functionColumnsQuery_def Let_def
      forNext_foldE foldE_getFunctionColumns_body)

lemma Next_step:
  assumes "fst (Next res)"
  shows "\<exists>tw. drop (current res) (results res)
                = tw @ Get (snd (Next res)) # drop (current (snd (Next res))) (results res)
              \<and> (\<forall>x\<in>set tw. \<not> rs_filter res x)
              \<and> rs_filter res (Get (snd (Next res)))
              \<and> current (snd (Next res)) = current res + length tw + 1
              \<and> current (snd (Next res)) \<le> length (results res)"
    and "results (snd (Next res)) = results res"
    and "rs_filter (snd (Next res)) = rs_filter res"
proof -
  let ?p = "rs_filter res"
  let ?d = "drop (current res) (results res)"
  let ?tw = "takeWhile (\<lambda>x. \<not> ?p x) ?d"
  have len: "current res + length ?tw < length (results res)"
    using assms by (simp add: Next_def Let_def)
  then have "length ?tw < length ?d" by simp
  from skip_split[OF this] obtain y where py: "?p y"
    and d: "?d = ?tw @ y # drop (Suc (length ?tw)) ?d" and y: "y = ?d ! length ?tw"
    by blast
  have y': "y = Get (snd (Next res))"
    using y len by (simp add: Next_def Let_def Get_def)
  have dd: "drop (Suc (length ?tw)) ?d = drop (current (snd (Next res))) (results res)"
    by (simp add: Next_def Let_def ac_simps)
  have tw: "\<forall>x\<in>set ?tw. \<not> ?p x" by (auto dest: set_takeWhileD)
  have c: "current (snd (Next res)) = current res + length ?tw + 1"
    by (simp add: Next_def Let_def)
  have "?d = ?tw @ Get (snd (Next res)) # drop (current (snd (Next res))) (results res)"
    using d y' dd by simp
  then show "\<exists>tw. drop (current res) (results res)
                = tw @ Get (snd (Next res)) # drop (current (snd (Next res))) (results res)
              \<and> (\<forall>x\<in>set tw. \<not> rs_filter res x)
              \<and> rs_filter res (Get (snd (Next res)))
              \<and> current (snd (Next res)) = current res + length tw + 1
              \<and> current (snd (Next res)) \<le> length (results res)"
    using tw py y' c len by (intro exI[of _ ?tw]) simp
  show "results (snd (Next res)) = results res" by (simp add: Next_def Let_def)
  show "rs_filter (snd (Next res)) = rs_filter res" by (simp add: Next_def Let_def)
qed

lemma Next_end:
  assumes "\<not> fst (Next res)"
  shows "\<forall>x\<in>set (drop (current res) (results res)). \<not> rs_filter res x"
    and "results (snd (Next res)) = results res"
    and "rs_filter (snd (Next res)) = rs_filter res"
    and "remaining (snd (Next res)) = []"
proof -
  have "remaining res = []" using Next_False[OF assms] .
  then show "\<forall>x\<in>set (drop (current res) (results res)). \<not> rs_filter res x"
    by (simp add: remaining_def filter_empty_conv)
  show "results (snd (Next res)) = results res" by (simp add: Next_def Let_def)
  show "rs_filter (snd (Next res)) = rs_filter res" by (simp add: Next_def Let_def)
  have "length (results res) < current (snd (Next res))"
    using assms by (simp add: Next_def Let_def)
  then show "remaining (snd (Next res)) = []"
    by (simp add: remaining_def Next_def Let_def)
qed


lemma DescribeFunctions_loop_ok:
  assumes "FunctionColumns (w_r w) = Some fc"
    and "\<And>f a. rs_filter res (f\<lparr>f_ArgTypes := a\<rparr>) = rs_filter res f"
    and "\<forall>f\<in>set (remaining res). \<exists>cols. fc (functionColumnsQuery f) = (Some cols, None)"
  shows "\<exists>res'. DescribeFunctions_loop w res qs
                  = ((res', None), qs @ map functionColumnsQuery (remaining res))
     \<and> rs_filter res' = rs_filter res
     \<and> results res' = take (current res) (results res)
         @ map (\<lambda>f. if rs_filter res f then enriched fc f else f)
             (drop (current res) (results res))
     \<and> remaining res' = []"
  using assms
proof (induction w res qs rule: DescribeFunctions_loop.induct)
  case (1 w res qs)
  let ?P = "rs_filter res"
  let ?g = "\<lambda>f. if ?P f then enriched fc f else f"
  show ?case
  proof (cases "fst (Next res)")
    case False
    have none: "\<forall>x\<in>set (drop (current res) (results res)). \<not> ?P x"
      using Next_end(1)[OF False] .
    then have m: "map ?g (drop (current res) (results res)) = drop (current res) (results res)"
      by (simp add: map_idI)
    have r: "remaining res = []" using Next_False[OF False] .
    have "DescribeFunctions_loop w res qs = ((snd (Next res), None), qs)"
      using False by (subst DescribeFunctions_loop.simps) simp
    then show ?thesis
      using r m Next_end(2,3,4)[OF False]
      by (intro exI[of _ "snd (Next res)"]) simp
  next
    case True
    define res1 where "res1 = snd (Next res)"
    define f where "f = Get res1"
    from Next_step(1)[OF True] obtain tw where
      d: "drop (current res) (results res) = tw @ f # drop (current res1) (results res)"
      and tw: "\<forall>x\<in>set tw. \<not> ?P x" and pf: "?P f"
      and c1: "current res1 = current res + length tw + 1"
      and le: "current res1 \<le> length (results res)"
      unfolding res1_def f_def by blast
    have xs1: "results res1 = results res" and p1: "rs_filter res1 = ?P"
      unfolding res1_def using Next_step(2,3)[OF True] by simp_all
    have rem: "remaining res = f # remaining res1"
      unfolding res1_def f_def using Next_True[OF True] .
    then obtain cols where q: "fc (functionColumnsQuery f) = (Some cols, None)"
      using "1.prems"(3) by auto
    have g: "getFunctionColumns w (f_Catalog f) (f_Schema f) (f_SpecificName f) qs
               = ((functionArgTypes fc f, None), qs @ [functionColumnsQuery f])"
      using getFunctionColumns_ok[OF "1.prems"(1) q] .
    define res2 where "res2 = SetCurrent res1 (f\<lparr>f_ArgTypes := functionArgTypes fc f\<rparr>)"
    have cur2: "current res2 = current res1" and p2: "rs_filter res2 = ?P"
      and xs2: "results res2 = (results res)[current res1 - 1 := enriched fc f]"
      by (simp_all add: res2_def SetCurrent_def p1 xs1 enriched_def)
    have drop2: "drop (current res2) (results res2) = drop (current res1) (results res)"
      using c1 by (simp add: cur2 xs2)
    have rem2: "remaining res2 = remaining res1"
      by (simp add: remaining_def drop2 p2 p1 xs1)
    have step: "DescribeFunctions_loop w res qs
                  = DescribeFunctions_loop w res2 (qs @ [functionColumnsQuery f])"
      using True g
      by (subst DescribeFunctions_loop.simps)
        (simp add: Let_def res1_def[symmetric] f_def[symmetric] res2_def)
    have stable2: "\<And>h a. rs_filter res2 (h\<lparr>f_ArgTypes := a\<rparr>) = rs_filter res2 h"
      using "1.prems"(2) by (simp add: p2)
    have ok2: "\<forall>h\<in>set (remaining res2). \<exists>cols. fc (functionColumnsQuery h) = (Some cols, None)"
      using "1.prems"(3) rem rem2 by simp
    from "1.IH"[OF True res1_def f_def g[symmetric] refl refl "1.prems"(1), folded res2_def,
        OF stable2 ok2]
    obtain res' where
      l: "DescribeFunctions_loop w res2 (qs @ [functionColumnsQuery f])
            = ((res', None),
               (qs @ [functionColumnsQuery f]) @ map functionColumnsQuery (remaining res2))"
      and pf': "rs_filter res' = rs_filter res2"
      and xs': "results res' = take (current res2) (results res2)
          @ map (\<lambda>f. if rs_filter res2 f then enriched fc f else f)
              (drop (current res2) (results res2))"
      and e: "remaining res' = []"
      by blast
    have tk: "take (current res1) ((results res)[current res1 - 1 := enriched fc f])
                = take (current res) (results res) @ tw @ [enriched fc f]"
    proof -
      define A where "A = take (current res) (results res) @ tw"
      define B where "B = drop (current res1) (results res)"
      have a: "results res = A @ f # B"
        unfolding A_def B_def using d by (metis append.assoc append_take_drop_id)
      have lA: "length A = current res1 - 1" "current res1 = Suc (length A)"
        unfolding A_def using le c1 by simp_all
      have "(results res)[current res1 - 1 := enriched fc f] = A @ enriched fc f # B"
        unfolding lA(1)[symmetric] by (subst a) (rule list_update_length)
      then have "take (current res1) ((results res)[current res1 - 1 := enriched fc f])
                   = take (Suc (length A)) (A @ enriched fc f # B)"
        using lA(2) by simp
      also have "\<dots> = A @ [enriched fc f]" by simp
      finally show ?thesis by (simp add: A_def)
    qed
    have mtw: "map ?g tw = tw" using tw by (simp add: map_idI)
    from xs' have "results res' = take (current res2) (results res2)
        @ map ?g (drop (current res1) (results res))"
      by (simp only: drop2 p2)
    then have "results res' = (take (current res) (results res) @ tw @ [enriched fc f])
        @ map ?g (drop (current res1) (results res))"
      by (simp only: cur2 xs2 tk)
    moreover have "map ?g (drop (current res) (results res))
        = tw @ enriched fc f # map ?g (drop (current res1) (results res))"
      using mtw pf by (simp add: d)
    ultimately have "results res'
        = take (current res) (results res) @ map ?g (drop (current res) (results res))"
      by simp
    then show ?thesis
      using step l pf' e rem rem2 p2
      by (intro exI[of _ res']) simp
  qed
qed


lemma filter_map_enriched:
  assumes "\<And>f. P (e f) = P f"
  shows "filter P (map (\<lambda>f. if P f then e f else f) xs) = map e (filter P xs)"
  using assms by (induction xs) auto

lemma DescribeFunctions_loop_fresh:
  assumes "FunctionColumns (w_r w) = Some fc"
    and "\<And>f a. P (f\<lparr>f_ArgTypes := a\<rparr>) = P f"
    and "\<forall>f\<in>set (filter P rows). \<exists>cols. fc (functionColumnsQuery f) = (Some cols, None)"
  shows "\<exists>res'. DescribeFunctions_loop w (SetFilter P (NewResultSet rows)) qs
                  = ((res', None), qs @ map functionColumnsQuery (filter P rows))
           \<and> remaining res' = []
           \<and> remaining (Reset res') = map (enriched fc) (filter P rows)"
proof -
  let ?res = "SetFilter P (NewResultSet rows)"
  have f: "rs_filter ?res = P" "results ?res = rows" "current ?res = 0"
    by (simp_all add: SetFilter_def NewResultSet_def)
  have st: "\<And>f a. rs_filter ?res (f\<lparr>f_ArgTypes := a\<rparr>) = rs_filter ?res f"
    using assms(2) by (simp add: f)
  have ok: "\<forall>f\<in>set (remaining ?res). \<exists>cols. fc (functionColumnsQuery f) = (Some cols, None)"
    using assms(3) by simp
  from DescribeFunctions_loop_ok[OF assms(1) st ok, of qs]
  obtain res' where l: "DescribeFunctions_loop w ?res qs
                  = ((res', None), qs @ map functionColumnsQuery (remaining ?res))"
    and p: "rs_filter res' = rs_filter ?res"
    and xs: "results res' = take (current ?res) (results ?res)
         @ map (\<lambda>f. if rs_filter ?res f then enriched fc f else f)
             (drop (current ?res) (results ?res))"
    and e: "remaining res' = []"
    by blast
  have "remaining (Reset res') = filter P (map (\<lambda>f. if P f then enriched fc f else f) rows)"
    using p xs by (simp add: remaining_def Reset_def f)
  also have "\<dots> = map (enriched fc) (filter P rows)"
    by (rule filter_map_enriched) (simp add: enriched_def assms(2))
  finally show ?thesis using l e by (intro exI[of _ res']) simp
qed

lemma SetFilter_True: "SetFilter (\<lambda>_. True) (NewResultSet rows) = NewResultSet rows"
  by (simp add: SetFilter_def NewResultSet_def)

text \<open>
  C6. With FunctionReader and FunctionColumnReader present, a successful function query
  and a successful column query for each function that passes the system-schema filter,
  DescribeFunctions issues exactly one FunctionColumns query per such function, in the
  order of the rows, and the table it renders holds all of these functions from the
  first on (the loop leaves the cursor behind the last row, so this is the effect of
  \<open>Reset\<close>), each with its argument types replaced by the enrichment: the rows with
  ordinal position 0 skipped, and of each other row the mode (left out when it is
  \<open>IN\<close> or empty), the name (left out when empty) and the data type, the fragments
  joined with a comma and a space.
\<close>

theorem DescribeFunctions_enriches_rows:
  assumes "Functions (w_r w) = Some rd"
    and "FunctionColumns (w_r w) = Some fc"
    and "fst (parsePattern pattern) = (sp, tp)"
    and "rd (Filter0\<lparr>Schema := sp, Name := tp, Types := selectTypes (funcTypes w) codes,
               WithSystem := showSystem\<rparr>) = (Some rows, None)"
    and "\<forall>f\<in>set (filter (\<lambda>f. showSystem \<or> f_Schema f \<notin> systemSchemas w) rows).
           \<exists>cols. fc (functionColumnsQuery f) = (Some cols, None)"
  shows "DescribeFunctions w codes pattern verbose showSystem out qs
             = ((out @ [EncodeAll [(''title'', ''List of functions'')]
                          ([''Schema'', ''Name'', ''Result data type'', ''Argument data types'',
                            ''Type'']
                           @ (if verbose
                              then [''Volatility'', ''Security'', ''Language'', ''Source code'']
                              else []))
                          (map (\<lambda>f. DescribeFunctions_scanValues verbose (enriched fc f))
                             (filter (\<lambda>f. showSystem \<or> f_Schema f \<notin> systemSchemas w) rows))],
                 None),
                qs @ map functionColumnsQuery
                       (filter (\<lambda>f. showSystem \<or> f_Schema f \<notin> systemSchemas w) rows))"
proof -
  let ?P = "\<lambda>f. showSystem \<or> f_Schema f \<notin> systemSchemas w"
  have p: "parsePattern pattern = ((sp, tp), None)"
    using assms(3) parsePattern_no_error[of pattern] by (cases "parsePattern pattern") simp
  have res0: "(if \<not> showSystem
               then SetFilter (\<lambda>f. f_Schema f \<notin> systemSchemas w) (NewResultSet rows)
               else NewResultSet rows) = SetFilter ?P (NewResultSet rows)"
    by (simp add: SetFilter_True)
  have st: "\<And>f a. ?P (f\<lparr>f_ArgTypes := a\<rparr>) = ?P f" by simp
  from DescribeFunctions_loop_fresh[of w fc ?P rows qs, OF assms(2) st assms(5)]
  obtain res' where l: "DescribeFunctions_loop w (SetFilter ?P (NewResultSet rows)) qs
                  = ((res', None), qs @ map functionColumnsQuery (filter ?P rows))"
    and r: "remaining (Reset res') = map (enriched fc) (filter ?P rows)"
    by blast
  show ?thesis
    using assms(1,2,4) p l r
    by (simp add: DescribeFunctions_def Let_def res0 comp_def)
qed


theorem DescribeFunctions_enriches_rows_witness:
  "Functions (w_r (NewIngresWriter functionReader)) = Some (\<lambda>flt. (Some exampleFunctions, None))
   \<and> FunctionColumns (w_r (NewIngresWriter functionReader))
       = Some (\<lambda>flt. (Some exampleFunctionColumns, None))
   \<and> fst (parsePattern ''*'') = ([], ''%'')
   \<and> DescribeFunctions (NewIngresWriter functionReader) ''n'' ''*'' False False [] []
       = (([EncodeAll [(''title'', ''List of functions'')]
              [''Schema'', ''Name'', ''Result data type'', ''Argument data types'', ''Type'']
              [[StrV ''public'', StrV ''add'', StrV ''integer'', StrV ''a integer, INOUT text'',
                StrV ''FUNCTION'']]], None),
          [Filter0\<lparr>Catalog := [], Schema := ''public'', Parent := ''add_1''\<rparr>])"
proof -
  let ?w = "NewIngresWriter functionReader"
  let ?rd = "\<lambda>flt :: Filter. (Some exampleFunctions, None :: error option)"
  let ?fc = "\<lambda>flt :: Filter. (Some exampleFunctionColumns, None :: error option)"
  have h1: "Functions (w_r ?w) = Some ?rd"
    by (simp add: NewIngresWriter_def functionReader_def)
  have h2: "FunctionColumns (w_r ?w) = Some ?fc"
    by (simp add: NewIngresWriter_def functionReader_def)
  have h3: "fst (parsePattern ''*'') = ([], ''%'')"
    by (simp add: parsePattern_def ContainsRune_def ReplaceAll_single)
  have h4: "?rd (Filter0\<lparr>Schema := [], Name := ''%'',
                  Types := selectTypes (funcTypes ?w) ''n'', WithSystem := False\<rparr>)
              = (Some exampleFunctions, None)"
    by simp
  have shown: "filter (\<lambda>f. f_Schema f \<notin> systemSchemas ?w) exampleFunctions
                 = [newFunction ''public'' ''add'' ''add_1'']"
    by (simp add: exampleFunctions_def newFunction_def NewIngresWriter_def)
  have h5: "\<forall>f\<in>set (filter (\<lambda>f. False \<or> f_Schema f \<notin> systemSchemas ?w) exampleFunctions).
              \<exists>cols. ?fc (functionColumnsQuery f) = (Some cols, None)"
    by simp
  have a: "functionArgTypes ?fc (newFunction ''public'' ''add'' ''add_1'') = ''a integer, INOUT text''"
    by (simp add: functionArgTypes_def exampleFunctionColumns_def argFragment_def)
  show ?thesis
    using DescribeFunctions_enriches_rows[OF h1 h2 h3 h4 h5, where verbose=False and out="[]"
        and qs="[]"] h1 h2 h3
    by (simp add: shown enriched_def a DescribeFunctions_scanValues_def functionColumnsQuery_def)
      (simp add: newFunction_def)
qed

end
